theory Spec2Isabelle
  imports Main "HOL-Library.Multiset"
begin

section \<open>JavaScript values as the route handlers observe them\<close>

text \<open>
  A JavaScript string is a sequence of UTF-16 code units, each given here by its number.
  \<open>str\<close> turns an ASCII literal of the source into such a sequence.
\<close>

type_synonym jsstring = "nat list"

definition str :: "string \<Rightarrow> jsstring" where
  "str s = map of_char s"

text \<open>
  \<open>String.prototype.trim\<close> removes the WhiteSpace and LineTerminator code points of
  ECMAScript from both ends: TAB, LF, VT, FF, CR, SP, NBSP, U+1680, U+2000..U+200A,
  U+2028, U+2029, U+202F, U+205F, U+3000 and U+FEFF.
\<close>

definition is_space :: "nat \<Rightarrow> bool" where
  "is_space c =
     (c \<in> {9, 10, 11, 12, 13, 32, 160, 5760, 8232, 8233, 8239, 8287, 12288, 65279}
      \<or> (8192 \<le> c \<and> c \<le> 8202))"

definition trim :: "jsstring \<Rightarrow> jsstring" where
  "trim s = rev (dropWhile is_space (rev (dropWhile is_space s)))"

text \<open>
  The body of a request is parsed JSON, so a field holds any JSON value, or
  \<open>undefined\<close> when the body has no such member. Numbers are the whole numbers
  (of magnitude below \<open>10^21\<close>, whose text is the plain decimal numeral); the handlers
  look at a number only through its truthiness, its type and its text.
\<close>

datatype jsval =
    JUndefined
  | JNull
  | JBool bool
  | JNum int
  | JStr jsstring
  | JArr "jsval list"
  | JObj "(jsstring \<times> jsval) list"

fun truthy :: "jsval \<Rightarrow> bool" where
  "truthy JUndefined = False"
| "truthy JNull = False"
| "truthy (JBool b) = b"
| "truthy (JNum n) = (n \<noteq> 0)"
| "truthy (JStr s) = (s \<noteq> [])"
| "truthy (JArr xs) = True"
| "truthy (JObj kvs) = True"

fun is_string :: "jsval \<Rightarrow> bool" where
  "is_string (JStr s) = True"
| "is_string v = False"

text \<open>\<open>v.trim()\<close>: only a string has the method; \<open>None\<close> is the TypeError otherwise.\<close>

fun js_trim :: "jsval \<Rightarrow> jsstring option" where
  "js_trim (JStr s) = Some (trim s)"
| "js_trim v = None"

text \<open>\<open>xs.includes(v)\<close> for an array \<open>xs\<close> of strings: no other value equals a string.\<close>

fun includes_val :: "jsstring list \<Rightarrow> jsval \<Rightarrow> bool" where
  "includes_val xs (JStr s) = (s \<in> set xs)"
| "includes_val xs v = False"

function digits :: "nat \<Rightarrow> jsstring" where
  "digits n = (if n < 10 then [48 + n] else digits (n div 10) @ [48 + n mod 10])"
  by pat_completeness auto
termination
  by (relation "measure id") auto

declare digits.simps [simp del]

definition decimal :: "int \<Rightarrow> jsstring" where
  "decimal n = (if n < 0 then 45 # digits (nat (- n)) else digits (nat n))"

text \<open>
  The abstract operation ToString, \<open>None\<close> when it throws a TypeError. An array is
  joined with commas, \<open>undefined\<close> and \<open>null\<close> elements giving the empty text. A
  parsed JSON object has no callable member of its own: with a member named
  \<open>toString\<close> the inherited method is hidden, \<open>valueOf\<close> returns no primitive, and the
  conversion throws; without it the text is \<open>[object Object]\<close>.
\<close>

fun ToString :: "jsval \<Rightarrow> jsstring option"
  and Array_join :: "jsval list \<Rightarrow> jsstring option" where
  "ToString JUndefined = Some (str ''undefined'')"
| "ToString JNull = Some (str ''null'')"
| "ToString (JBool b) = Some (str (if b then ''true'' else ''false''))"
| "ToString (JNum n) = Some (decimal n)"
| "ToString (JStr s) = Some s"
| "ToString (JArr xs) = Array_join xs"
| "ToString (JObj kvs) =
     (if str ''toString'' \<in> fst ` set kvs then None else Some (str ''[object Object]''))"
| "Array_join [] = Some []"
| "Array_join (x # xs) =
     (case (if x = JUndefined \<or> x = JNull then Some [] else ToString x) of
        None \<Rightarrow> None
      | Some s \<Rightarrow>
          (if xs = [] then Some s
           else (case Array_join xs of None \<Rightarrow> None | Some t \<Rightarrow> Some (s @ 44 # t))))"

text \<open>The pattern \<open>/^\d{4}-\d{2}-\d{2}$/\<close>: ten code units, digits around two hyphens.\<close>

definition is_digit :: "nat \<Rightarrow> bool" where
  "is_digit c = (48 \<le> c \<and> c \<le> 57)"

definition date_pattern :: "jsstring \<Rightarrow> bool" where
  "date_pattern s =
     (length s = 10 \<and> list_all is_digit (take 4 s) \<and> s ! 4 = 45
      \<and> list_all is_digit (take 2 (drop 5 s)) \<and> s ! 7 = 45
      \<and> list_all is_digit (take 2 (drop 8 s)))"

text \<open>\<open>regex.test(v)\<close> converts its argument with ToString first.\<close>

definition regex_test :: "jsval \<Rightarrow> bool option" where
  "regex_test v = map_option date_pattern (ToString v)"

fun join_strings :: "jsstring \<Rightarrow> jsstring list \<Rightarrow> jsstring" where
  "join_strings sep [] = []"
| "join_strings sep [x] = x"
| "join_strings sep (x # y # ys) = x @ sep @ join_strings sep (y # ys)"

section \<open>The record store (db.js)\<close>

type_synonym timestamp = nat

record equipment =
  id_col :: int
  name_col :: jsstring
  type_col :: jsstring
  status_col :: jsstring
  lastCleanedDate_col :: "jsstring option"
  createdAt_col :: timestamp
  updatedAt_col :: timestamp

text \<open>
  The table and the AUTOINCREMENT counter the engine keeps for it (the largest rowid the
  table has ever held).
\<close>

record database =
  equipment_tbl :: "equipment list"
  sqlite_sequence :: int

definition initialize :: database where
  "initialize = \<lparr>equipment_tbl = [], sqlite_sequence = 0\<rparr>"

datatype sqlval = NULL | INTEGER int | TEXT jsstring

datatype sql_error = SQLITE_CONSTRAINT | SQLITE_FULL

text \<open>
  The store keeps text as UTF-8. The driver converts a JavaScript string to UTF-8 when it
  binds it, and a surrogate code unit that is not half of a pair has no UTF-8 form: it
  is replaced by U+FFFD. \<open>utf8_text s\<close> is the string as a later SELECT reads it back:
  a high surrogate followed by a low one is kept, any other surrogate is replaced.
\<close>

definition is_high_surrogate :: "nat \<Rightarrow> bool" where
  "is_high_surrogate c = (55296 \<le> c \<and> c \<le> 56319)"

definition is_low_surrogate :: "nat \<Rightarrow> bool" where
  "is_low_surrogate c = (56320 \<le> c \<and> c \<le> 57343)"

fun utf8_text :: "jsstring \<Rightarrow> jsstring" where
  "utf8_text [] = []"
| "utf8_text [c] = [if is_high_surrogate c \<or> is_low_surrogate c then 65533 else c]"
| "utf8_text (c # d # cs) =
     (if is_high_surrogate c \<and> is_low_surrogate d then c # d # utf8_text cs
      else (if is_high_surrogate c \<or> is_low_surrogate c then 65533 else c)
             # utf8_text (d # cs))"

text \<open>
  How the driver binds a JavaScript parameter: a string as its UTF-8 text, \<open>null\<close> as
  NULL. What it makes of any other value (a number, a boolean, an array, an object)
  differs between releases of the driver and is left open: \<open>drv\<close> stands for it. The
  handlers bind such a value only as a lastCleanedDate that has passed the pattern test,
  an array whose text matches.
\<close>

type_synonym driver = "jsval \<Rightarrow> sqlval"

definition bind :: "driver \<Rightarrow> jsval \<Rightarrow> sqlval" where
  "bind drv v = (case v of JNull \<Rightarrow> NULL | JStr s \<Rightarrow> TEXT (utf8_text s) | _ \<Rightarrow> drv v)"

text \<open>
  One such driver, for the examples: numbers and booleans as integers, an array or an
  object as its text. No request of the examples makes a handler bind such a value, so
  the examples are the same for every driver.
\<close>

definition example_driver :: driver where
  "example_driver v =
     (case v of
        JUndefined \<Rightarrow> NULL
      | JBool b \<Rightarrow> INTEGER (if b then 1 else 0)
      | JNum n \<Rightarrow> INTEGER n
      | _ \<Rightarrow> (case ToString v of None \<Rightarrow> NULL | Some t \<Rightarrow> TEXT t))"

text \<open>A column declared TEXT stores an integer as its decimal text.\<close>

fun text_affinity :: "sqlval \<Rightarrow> jsstring option" where
  "text_affinity NULL = None"
| "text_affinity (INTEGER n) = Some (decimal n)"
| "text_affinity (TEXT s) = Some s"

text \<open>The two CHECK constraints of the table.\<close>

definition type_check :: "jsstring \<Rightarrow> bool" where
  "type_check t = (t \<in> set (map str [''Machine'', ''Vessel'', ''Tank'', ''Mixer'']))"

definition status_check :: "jsstring \<Rightarrow> bool" where
  "status_check s = (s \<in> set (map str [''Active'', ''Inactive'', ''Under Maintenance'']))"

definition largest_rowid :: "equipment list \<Rightarrow> int" where
  "largest_rowid rs = foldr (\<lambda>r m. max (id_col r) m) rs 0"

text \<open>
  AUTOINCREMENT: the rowid of a new row is one more than the largest rowid the table has
  ever held.
\<close>

definition next_rowid :: "database \<Rightarrow> int" where
  "next_rowid db = max (sqlite_sequence db) (largest_rowid (equipment_tbl db)) + 1"

text \<open>
  \<open>INSERT INTO equipment (name, type, status, lastCleanedDate) VALUES (?, ?, ?, ?)\<close>.
  The three NOT NULL columns and the CHECK constraints are enforced; the insert fails
  once the largest 64-bit integer has been used as a rowid; both timestamps default to
  the current time. The result carries the rowid of the new row.
\<close>

definition sql_insert ::
  "timestamp \<Rightarrow> sqlval \<Rightarrow> sqlval \<Rightarrow> sqlval \<Rightarrow> sqlval \<Rightarrow> database
     \<Rightarrow> sql_error + (int \<times> database)" where
  "sql_insert now n t s d db =
     (case text_affinity n of
        None \<Rightarrow> Inl SQLITE_CONSTRAINT
      | Some n' \<Rightarrow>
     (case text_affinity t of
        None \<Rightarrow> Inl SQLITE_CONSTRAINT
      | Some t' \<Rightarrow>
     (case text_affinity s of
        None \<Rightarrow> Inl SQLITE_CONSTRAINT
      | Some s' \<Rightarrow>
          if \<not> type_check t' \<or> \<not> status_check s' then Inl SQLITE_CONSTRAINT
          else if next_rowid db > 9223372036854775807 then Inl SQLITE_FULL
          else Inr (next_rowid db,
                 \<lparr>equipment_tbl = equipment_tbl db @
                    [\<lparr>id_col = next_rowid db, name_col = n', type_col = t', status_col = s',
                      lastCleanedDate_col = text_affinity d,
                      createdAt_col = now, updatedAt_col = now\<rparr>],
                  sqlite_sequence = next_rowid db\<rparr>))))"

text \<open>
  \<open>run\<close> resolves with \<open>{ id: this.lastID, changes: this.changes }\<close>, and \<open>lastID\<close> is a
  JavaScript number, a double: a rowid below \<open>2^53\<close> is held exactly, a larger one is
  rounded to 53 significant bits, a tie going to the even neighbour. \<open>exponent k\<close> is
  the number of low bits a rowid \<open>k\<close> loses (rowids are positive).
\<close>

function exponent :: "int \<Rightarrow> nat" where
  "exponent k = (if k < 9007199254740992 then 0 else Suc (exponent (k div 2)))"
  by pat_completeness auto
termination
  by (relation "measure nat") auto

declare exponent.simps [simp del]

definition js_number :: "int \<Rightarrow> int" where
  "js_number k =
     (let e = exponent k; q = k div 2 ^ e; r = k mod 2 ^ e
      in (if 2 * r < 2 ^ e \<or> (2 * r = 2 ^ e \<and> even q) then q else q + 1) * 2 ^ e)"

text \<open>
  \<open>SELECT * FROM equipment WHERE id = ?\<close>, the parameter given as the rowid it
  denotes (\<open>None\<close> when it denotes none), and \<open>SELECT * FROM equipment ORDER BY id DESC\<close>.
\<close>

definition select_by_id :: "int option \<Rightarrow> database \<Rightarrow> equipment option" where
  "select_by_id k db = find (\<lambda>r. Some (id_col r) = k) (equipment_tbl db)"

definition select_all_desc :: "database \<Rightarrow> equipment list" where
  "select_all_desc db = rev (sort_key id_col (equipment_tbl db))"

text \<open>
  \<open>UPDATE equipment SET ... WHERE id = ?\<close>: the SET list as the handler builds it, one
  entry for each pushed \<open>column = ?\<close> with its parameter, and \<open>updatedAt = CURRENT_TIMESTAMP\<close>.
  The handler names a column at most once, so the constraints are checked as each
  assignment is made.
\<close>

datatype column = Name | Type | Status | LastCleanedDate

datatype assignment = Set column sqlval | SetUpdatedAtNow

fun assign :: "timestamp \<Rightarrow> assignment \<Rightarrow> equipment \<Rightarrow> equipment option" where
  "assign now (Set Name v) r =
     (case text_affinity v of None \<Rightarrow> None | Some s \<Rightarrow> Some (r\<lparr>name_col := s\<rparr>))"
| "assign now (Set Type v) r =
     (case text_affinity v of
        None \<Rightarrow> None
      | Some s \<Rightarrow> if type_check s then Some (r\<lparr>type_col := s\<rparr>) else None)"
| "assign now (Set Status v) r =
     (case text_affinity v of
        None \<Rightarrow> None
      | Some s \<Rightarrow> if status_check s then Some (r\<lparr>status_col := s\<rparr>) else None)"
| "assign now (Set LastCleanedDate v) r = Some (r\<lparr>lastCleanedDate_col := text_affinity v\<rparr>)"
| "assign now SetUpdatedAtNow r = Some (r\<lparr>updatedAt_col := now\<rparr>)"

fun assign_all :: "timestamp \<Rightarrow> assignment list \<Rightarrow> equipment \<Rightarrow> equipment option" where
  "assign_all now [] r = Some r"
| "assign_all now (a # as) r =
     (case assign now a r of None \<Rightarrow> None | Some r' \<Rightarrow> assign_all now as r')"

definition sql_update ::
  "timestamp \<Rightarrow> assignment list \<Rightarrow> int option \<Rightarrow> database \<Rightarrow> sql_error + database" where
  "sql_update now as k db =
     (case those (map (\<lambda>r. if Some (id_col r) = k then assign_all now as r else Some r)
                      (equipment_tbl db)) of
        None \<Rightarrow> Inl SQLITE_CONSTRAINT
      | Some rs \<Rightarrow> Inr (db\<lparr>equipment_tbl := rs\<rparr>))"

text \<open>\<open>DELETE FROM equipment WHERE id = ?\<close>.\<close>

definition sql_delete :: "int option \<Rightarrow> database \<Rightarrow> database" where
  "sql_delete k db = db\<lparr>equipment_tbl := filter (\<lambda>r. Some (id_col r) \<noteq> k) (equipment_tbl db)\<rparr>"

section \<open>The API service (routes/equipmentRoutes.js)\<close>

definition VALID_TYPES :: "jsstring list" where
  "VALID_TYPES = map str [''Machine'', ''Vessel'', ''Tank'', ''Mixer'']"

definition VALID_STATUSES :: "jsstring list" where
  "VALID_STATUSES = map str [''Active'', ''Inactive'', ''Under Maintenance'']"

text \<open>\<open>req.body\<close>, destructured into the four fields the handlers read.\<close>

record body =
  name :: jsval
  type :: jsval
  status :: jsval
  lastCleanedDate :: jsval

text \<open>
  \<open>req.params.id\<close>, the text of the path segment, as the handlers use it: whether it is
  empty (\<open>!id\<close>), whether \<open>isNaN(id)\<close> holds, which rowid the engine compares it equal to
  when it is bound to \<open>WHERE id = ?\<close> (none for a text that is no integer), and
  \<open>parseInt(id)\<close> (\<open>None\<close> for NaN).
\<close>

record id_param =
  blank :: bool
  isNaN :: bool
  rowid :: "int option"
  parseInt :: "int option"

text \<open>
  The path segment written as a plain decimal numeral (of magnitude below \<open>2^53\<close>, so
  that \<open>parseInt\<close> is exact).
\<close>

definition decimal_id :: "int \<Rightarrow> id_param" where
  "decimal_id k = \<lparr>blank = False, isNaN = False, rowid = Some k, parseInt = Some k\<rparr>"

text \<open>
  Two path segments the three readings disagree on. \<open>0x1\<close>: \<open>isNaN("0x1")\<close> is false,
  the number being 1; the engine takes the text \<open>0x1\<close> for no number, so it equals no
  rowid; \<open>parseInt("0x1")\<close> is 1. \<open>1e3\<close>: \<open>isNaN("1e3")\<close> is false; the engine
  reads the text as the number 1000; \<open>parseInt("1e3")\<close> stops at the letter and is 1.
\<close>

definition path_0x1 :: id_param where
  "path_0x1 = \<lparr>blank = False, isNaN = False, rowid = None, parseInt = Some 1\<rparr>"

definition path_1e3 :: id_param where
  "path_1e3 = \<lparr>blank = False, isNaN = False, rowid = Some 1000, parseInt = Some 1\<rparr>"

text \<open>
  The responses of the four handlers: the list (200, with \<open>data\<close>), the created
  and the updated record (201 and 200, with \<open>data\<close> as the follow-up SELECT returned
  it), the deleted id (200, with \<open>id: parseInt(id)\<close>), "Invalid equipment ID" (400),
  "Equipment not found" (404, with \<open>id: parseInt(id)\<close>), "Validation failed" (400,
  with \<open>details\<close>), "No fields to update" (400), and what the \<open>catch\<close> block of a
  handler sends for anything thrown inside it (500). A record in a response is the row
  as the statement returned it, its id the rowid; the JSON text writes that id as a
  JavaScript number.
\<close>

datatype response =
    Listed "equipment list"
  | Created "equipment option"
  | Updated "equipment option"
  | Deleted "int option"
  | InvalidId
  | NotFound "int option"
  | ValidationFailed "jsstring list"
  | NoFields
  | ServerError

fun status_code :: "response \<Rightarrow> nat" where
  "status_code (Listed rs) = 200"
| "status_code (Created r) = 201"
| "status_code (Updated r) = 200"
| "status_code (Deleted k) = 200"
| "status_code InvalidId = 400"
| "status_code (NotFound k) = 404"
| "status_code (ValidationFailed ds) = 400"
| "status_code NoFields = 400"
| "status_code ServerError = 500"

subsection \<open>GET /equipment\<close>

definition get_equipment :: "database \<Rightarrow> response \<times> database" where
  "get_equipment db = (Listed (select_all_desc db), db)"

subsection \<open>POST /equipment\<close>

definition name_required :: jsstring where
  "name_required = str ''name is required and must be a non-empty string''"

definition type_required :: jsstring where
  "type_required =
     str ''type is required and must be one of: '' @ join_strings (str '', '') VALID_TYPES"

definition status_required :: jsstring where
  "status_required =
     str ''status is required and must be one of: '' @ join_strings (str '', '') VALID_STATUSES"

definition date_format :: jsstring where
  "date_format = str ''lastCleanedDate must be in YYYY-MM-DD format''"

definition name_errors :: "jsval \<Rightarrow> jsstring list" where
  "name_errors v =
     (if \<not> truthy v \<or> \<not> is_string v \<or> js_trim v = Some [] then [name_required] else [])"

definition type_errors :: "jsval \<Rightarrow> jsstring list" where
  "type_errors v = (if \<not> truthy v \<or> \<not> includes_val VALID_TYPES v then [type_required] else [])"

definition status_errors :: "jsval \<Rightarrow> jsstring list" where
  "status_errors v =
     (if \<not> truthy v \<or> \<not> includes_val VALID_STATUSES v then [status_required] else [])"

text \<open>
  The date check runs the pattern only on a truthy value; \<open>None\<close> when the test throws,
  which ends the handler in its \<open>catch\<close> block.
\<close>

definition date_errors :: "jsval \<Rightarrow> jsstring list option" where
  "date_errors v =
     (if truthy v then
        (case regex_test v of
           None \<Rightarrow> None
         | Some ok \<Rightarrow> Some (if \<not> ok then [date_format] else []))
      else Some [])"

text \<open>
  The handler validates, inserts, and fetches the record to return with a second
  statement, \<open>SELECT * FROM equipment WHERE id = ?\<close> bound to \<open>result.id\<close>: the number
  \<open>run\<close> made of the new rowid.
\<close>

definition post_equipment ::
  "driver \<Rightarrow> timestamp \<Rightarrow> body \<Rightarrow> database \<Rightarrow> response \<times> database" where
  "post_equipment drv now b db =
     (case date_errors (lastCleanedDate b) of
        None \<Rightarrow> (ServerError, db)
      | Some de \<Rightarrow>
          (let errors = name_errors (name b) @ type_errors (type b) @ status_errors (status b) @ de
           in if length errors > 0 then (ValidationFailed errors, db)
              else
                (case js_trim (name b) of
                   None \<Rightarrow> (ServerError, db)
                 | Some n \<Rightarrow>
                     (case sql_insert now (bind drv (JStr n)) (bind drv (type b))
                             (bind drv (status b))
                             (bind drv (if truthy (lastCleanedDate b) then lastCleanedDate b
                                        else JNull)) db of
                        Inl e \<Rightarrow> (ServerError, db)
                      | Inr (lastID, db') \<Rightarrow>
                          (Created (select_by_id (Some (js_number lastID)) db'), db')))))"

subsection \<open>PUT /equipment/:id\<close>

definition name_invalid :: jsstring where
  "name_invalid = str ''name must be a non-empty string''"

definition type_invalid :: jsstring where
  "type_invalid = str ''type must be one of: '' @ join_strings (str '', '') VALID_TYPES"

definition status_invalid :: jsstring where
  "status_invalid = str ''status must be one of: '' @ join_strings (str '', '') VALID_STATUSES"

text \<open>
  Each field step either returns a response at once or extends \<open>updates\<close> and \<open>params\<close>,
  kept together as one list of columns with their parameters.
\<close>

definition put_name :: "jsval \<Rightarrow> (column \<times> jsval) list \<Rightarrow> response + (column \<times> jsval) list" where
  "put_name v updates =
     (if v \<noteq> JUndefined then
        (if \<not> is_string v \<or> js_trim v = Some [] then Inl (ValidationFailed [name_invalid])
         else (case js_trim v of
                 None \<Rightarrow> Inl ServerError
               | Some n \<Rightarrow> Inr (updates @ [(Name, JStr n)])))
      else Inr updates)"

definition put_type :: "jsval \<Rightarrow> (column \<times> jsval) list \<Rightarrow> response + (column \<times> jsval) list" where
  "put_type v updates =
     (if v \<noteq> JUndefined then
        (if \<not> includes_val VALID_TYPES v then Inl (ValidationFailed [type_invalid])
         else Inr (updates @ [(Type, v)]))
      else Inr updates)"

definition put_status :: "jsval \<Rightarrow> (column \<times> jsval) list \<Rightarrow> response + (column \<times> jsval) list" where
  "put_status v updates =
     (if v \<noteq> JUndefined then
        (if \<not> includes_val VALID_STATUSES v then Inl (ValidationFailed [status_invalid])
         else Inr (updates @ [(Status, v)]))
      else Inr updates)"

definition put_date :: "jsval \<Rightarrow> (column \<times> jsval) list \<Rightarrow> response + (column \<times> jsval) list" where
  "put_date v updates =
     (if v \<noteq> JUndefined then
        (if v \<noteq> JNull then
           (case regex_test v of
              None \<Rightarrow> Inl ServerError
            | Some ok \<Rightarrow>
                if \<not> ok then Inl (ValidationFailed [date_format])
                else Inr (updates @ [(LastCleanedDate, v)]))
         else Inr (updates @ [(LastCleanedDate, v)]))
      else Inr updates)"

definition put_fields :: "body \<Rightarrow> response + (column \<times> jsval) list" where
  "put_fields b =
     (case put_name (name b) [] of
        Inl r \<Rightarrow> Inl r
      | Inr u1 \<Rightarrow>
     (case put_type (type b) u1 of
        Inl r \<Rightarrow> Inl r
      | Inr u2 \<Rightarrow>
     (case put_status (status b) u2 of
        Inl r \<Rightarrow> Inl r
      | Inr u3 \<Rightarrow> put_date (lastCleanedDate b) u3)))"

text \<open>\<open>db.run\<close> of the UPDATE statement: the parameters are bound, then the statement runs.\<close>

definition run_update ::
  "driver \<Rightarrow> timestamp \<Rightarrow> (column \<times> jsval) list \<Rightarrow> int option \<Rightarrow> database
     \<Rightarrow> database option" where
  "run_update drv now updates k db =
     (case sql_update now (map (\<lambda>(c, v). Set c (bind drv v)) updates @ [SetUpdatedAtNow]) k db of
        Inl e \<Rightarrow> None
      | Inr db' \<Rightarrow> Some db')"

definition put_equipment ::
  "driver \<Rightarrow> timestamp \<Rightarrow> id_param \<Rightarrow> body \<Rightarrow> database \<Rightarrow> response \<times> database" where
  "put_equipment drv now p b db =
     (if blank p \<or> isNaN p then (InvalidId, db)
      else
        (case select_by_id (rowid p) db of
           None \<Rightarrow> (NotFound (parseInt p), db)
         | Some existing \<Rightarrow>
             (case put_fields b of
                Inl r \<Rightarrow> (r, db)
              | Inr updates \<Rightarrow>
                  if length updates = 0 then (NoFields, db)
                  else
                    (case run_update drv now updates (rowid p) db of
                       None \<Rightarrow> (ServerError, db)
                     | Some db' \<Rightarrow> (Updated (select_by_id (rowid p) db'), db')))))"

subsection \<open>DELETE /equipment/:id\<close>

definition delete_equipment :: "id_param \<Rightarrow> database \<Rightarrow> response \<times> database" where
  "delete_equipment p db =
     (if blank p \<or> isNaN p then (InvalidId, db)
      else
        (case select_by_id (rowid p) db of
           None \<Rightarrow> (NotFound (parseInt p), db)
         | Some existing \<Rightarrow> (Deleted (parseInt p), sql_delete (rowid p) db)))"

subsection \<open>Requests, runs and reachable states\<close>

datatype request =
    GetAll
  | Post body
  | Put id_param body
  | Delete id_param

fun handle :: "driver \<Rightarrow> timestamp \<Rightarrow> request \<Rightarrow> database \<Rightarrow> response \<times> database" where
  "handle drv now GetAll db = get_equipment db"
| "handle drv now (Post b) db = post_equipment drv now b db"
| "handle drv now (Put p b) db = put_equipment drv now p b db"
| "handle drv now (Delete p) db = delete_equipment p db"

text \<open>A sequence of requests, each with the time it is served at, and its responses.\<close>

fun serve :: "driver \<Rightarrow> database \<Rightarrow> (timestamp \<times> request) list \<Rightarrow> response list" where
  "serve drv db [] = []"
| "serve drv db ((now, rq) # rqs) =
     fst (handle drv now rq db) # serve drv (snd (handle drv now rq db)) rqs"

inductive reachable :: "driver \<Rightarrow> database \<Rightarrow> bool" for drv :: driver where
  start: "reachable drv initialize"
| step: "reachable drv db \<Longrightarrow> reachable drv (snd (handle drv now rq db))"

subsection \<open>Notions the properties are stated with\<close>

text \<open>What a create stores for \<open>lastCleanedDate || null\<close>.\<close>

definition stored_date :: "driver \<Rightarrow> jsval \<Rightarrow> jsstring option" where
  "stored_date drv d = (if truthy d then text_affinity (bind drv d) else None)"

text \<open>The row a create inserts for a valid body.\<close>

definition new_row ::
  "driver \<Rightarrow> timestamp \<Rightarrow> jsstring \<Rightarrow> jsstring \<Rightarrow> jsstring \<Rightarrow> jsval \<Rightarrow> database
     \<Rightarrow> equipment" where
  "new_row drv now s t u d db =
     \<lparr>id_col = next_rowid db, name_col = utf8_text (trim s), type_col = t, status_col = u,
      lastCleanedDate_col = stored_date drv d, createdAt_col = now, updatedAt_col = now\<rparr>"

text \<open>The same row, read off the body of the request.\<close>

fun string_of :: "jsval \<Rightarrow> jsstring" where
  "string_of (JStr s) = s"
| "string_of v = []"

definition created_row :: "driver \<Rightarrow> timestamp \<Rightarrow> body \<Rightarrow> database \<Rightarrow> equipment" where
  "created_row drv now b db =
     new_row drv now (string_of (name b)) (string_of (type b)) (string_of (status b))
       (lastCleanedDate b) db"

text \<open>A name is acceptable when it is a string that is not empty after trimming.\<close>

fun name_ok :: "jsval \<Rightarrow> bool" where
  "name_ok (JStr s) = (trim s \<noteq> [])"
| "name_ok v = False"

text \<open>
  The validation messages of a create request, one for each field that fails its check,
  in the order name, type, status, lastCleanedDate. A date whose pattern test throws has
  no message: the handler gives none.
\<close>

definition create_failures :: "body \<Rightarrow> jsstring list" where
  "create_failures b =
     (if \<not> name_ok (name b) then [name_required] else []) @
     (if \<not> includes_val VALID_TYPES (type b) then [type_required] else []) @
     (if \<not> includes_val VALID_STATUSES (status b) then [status_required] else []) @
     (if truthy (lastCleanedDate b) \<and> regex_test (lastCleanedDate b) = Some False
      then [date_format] else [])"

text \<open>
  The validation messages of an update request, one for each supplied field that fails
  its check: only a supplied field can fail, and an explicit \<open>null\<close> date is accepted. A
  supplied date whose pattern test throws has no message: the handler gives none.
\<close>

definition update_failures :: "body \<Rightarrow> jsstring list" where
  "update_failures b =
     (if name b \<noteq> JUndefined \<and> \<not> name_ok (name b) then [name_invalid] else []) @
     (if type b \<noteq> JUndefined \<and> \<not> includes_val VALID_TYPES (type b) then [type_invalid] else []) @
     (if status b \<noteq> JUndefined \<and> \<not> includes_val VALID_STATUSES (status b)
      then [status_invalid] else []) @
     (if lastCleanedDate b \<noteq> JUndefined \<and> lastCleanedDate b \<noteq> JNull
         \<and> regex_test (lastCleanedDate b) = Some False
      then [date_format] else [])"

text \<open>The columns an accepted update request sets, with their parameters.\<close>

definition supplied_updates :: "body \<Rightarrow> (column \<times> jsval) list" where
  "supplied_updates b =
     (case name b of JStr s \<Rightarrow> [(Name, JStr (trim s))] | _ \<Rightarrow> []) @
     (if type b \<noteq> JUndefined then [(Type, type b)] else []) @
     (if status b \<noteq> JUndefined then [(Status, status b)] else []) @
     (if lastCleanedDate b \<noteq> JUndefined then [(LastCleanedDate, lastCleanedDate b)] else [])"

text \<open>The row an accepted update request makes of a row.\<close>

definition updated_row :: "driver \<Rightarrow> timestamp \<Rightarrow> body \<Rightarrow> equipment \<Rightarrow> equipment" where
  "updated_row drv now b r =
     r\<lparr>name_col := (case name b of JStr s \<Rightarrow> utf8_text (trim s) | _ \<Rightarrow> name_col r),
       type_col := (case type b of JStr t \<Rightarrow> t | _ \<Rightarrow> type_col r),
       status_col := (case status b of JStr u \<Rightarrow> u | _ \<Rightarrow> status_col r),
       lastCleanedDate_col :=
         (if lastCleanedDate b = JUndefined then lastCleanedDate_col r
          else text_affinity (bind drv (lastCleanedDate b))),
       updatedAt_col := now\<rparr>"

text \<open>A row holds a type and a status of the two enumerations; a store whose rows all do.\<close>

definition row_ok :: "equipment \<Rightarrow> bool" where
  "row_ok r =
     (type_col r \<in> set (map str [''Machine'', ''Vessel'', ''Tank'', ''Mixer''])
      \<and> status_col r \<in> set (map str [''Active'', ''Inactive'', ''Under Maintenance'']))"

definition enum_ok :: "database \<Rightarrow> bool" where
  "enum_ok db = list_all row_ok (equipment_tbl db)"

section \<open>Auxiliary facts\<close>

lemma largest_rowid_ge: "r \<in> set rs \<Longrightarrow> id_col r \<le> largest_rowid rs"
  by (induction rs) (auto simp: largest_rowid_def)

lemma find_Some_D: "find P xs = Some x \<Longrightarrow> x \<in> set xs \<and> P x"
  by (induction xs) (auto split: if_splits)

lemma select_by_id_SomeD:
  "select_by_id k db = Some r \<Longrightarrow> r \<in> set (equipment_tbl db) \<and> Some (id_col r) = k"
  unfolding select_by_id_def by (rule find_Some_D)

lemma select_by_id_None:
  "select_by_id k db = None \<longleftrightarrow> (\<forall>r \<in> set (equipment_tbl db). Some (id_col r) \<noteq> k)"
  unfolding select_by_id_def by (auto simp: find_None_iff)

lemma sql_insert_InrD:
  assumes "sql_insert now n t s d db = Inr (k, db')"
  shows "\<exists>n' t' s'. text_affinity n = Some n' \<and> text_affinity t = Some t'
           \<and> text_affinity s = Some s' \<and> type_check t' \<and> status_check s'
           \<and> k = next_rowid db
           \<and> db' = \<lparr>equipment_tbl = equipment_tbl db @
                     [\<lparr>id_col = k, name_col = n', type_col = t', status_col = s',
                       lastCleanedDate_col = text_affinity d,
                       createdAt_col = now, updatedAt_col = now\<rparr>],
                   sqlite_sequence = k\<rparr>"
  using assms unfolding sql_insert_def
  by (auto split: option.splits if_splits)

lemma find_append_cases:
  "find P (xs @ ys) = (case find P xs of None \<Rightarrow> find P ys | Some x \<Rightarrow> Some x)"
  by (induction xs) auto

lemma next_rowid_gt: "r \<in> set (equipment_tbl db) \<Longrightarrow> id_col r < next_rowid db"
  using largest_rowid_ge [of r "equipment_tbl db"] by (simp add: next_rowid_def)

lemma next_rowid_gt_seq: "sqlite_sequence db < next_rowid db"
  by (simp add: next_rowid_def)

lemma select_new_row:
  assumes "id_col r = next_rowid db"
  shows "select_by_id (Some (next_rowid db))
           \<lparr>equipment_tbl = equipment_tbl db @ [r], sqlite_sequence = q\<rparr> = Some r"
proof -
  have "\<forall>x \<in> set (equipment_tbl db). id_col x \<noteq> next_rowid db"
    using next_rowid_gt by fastforce
  then have "find (\<lambda>x. Some (id_col x) = Some (next_rowid db)) (equipment_tbl db) = None"
    by (simp add: find_None_iff)
  then show ?thesis
    using assms by (simp add: select_by_id_def find_append_cases)
qed

lemma trim_Nil [simp]: "trim [] = []"
  by (simp add: trim_def)

lemma name_errors_Nil_iff: "name_errors v = [] \<longleftrightarrow> (\<exists>s. v = JStr s \<and> trim s \<noteq> [])"
  by (cases v) (auto simp: name_errors_def)

lemma VALID_TYPES_checked: "t \<in> set VALID_TYPES \<longleftrightarrow> type_check t"
  by (simp add: VALID_TYPES_def type_check_def)

lemma VALID_STATUSES_checked: "u \<in> set VALID_STATUSES \<longleftrightarrow> status_check u"
  by (simp add: VALID_STATUSES_def status_check_def)

lemma VALID_TYPES_nonempty: "t \<in> set VALID_TYPES \<Longrightarrow> t \<noteq> []"
  by (auto simp: VALID_TYPES_def str_def)

lemma VALID_STATUSES_nonempty: "u \<in> set VALID_STATUSES \<Longrightarrow> u \<noteq> []"
  by (auto simp: VALID_STATUSES_def str_def)

lemma type_errors_Nil_iff:
  "type_errors v = [] \<longleftrightarrow> (\<exists>t. v = JStr t \<and> t \<in> set VALID_TYPES)"
  by (cases v) (auto simp: type_errors_def dest: VALID_TYPES_nonempty)

lemma status_errors_Nil_iff:
  "status_errors v = [] \<longleftrightarrow> (\<exists>u. v = JStr u \<and> u \<in> set VALID_STATUSES)"
  by (cases v) (auto simp: status_errors_def dest: VALID_STATUSES_nonempty)

lemma post_equipment_throws:
  "date_errors (lastCleanedDate b) = None \<Longrightarrow> post_equipment drv now b db = (ServerError, db)"
  by (simp add: post_equipment_def)

lemma post_equipment_invalid:
  assumes "date_errors (lastCleanedDate b) = Some de"
    and "name_errors (name b) @ type_errors (type b) @ status_errors (status b) @ de \<noteq> []"
  shows "post_equipment drv now b db =
     (ValidationFailed
        (name_errors (name b) @ type_errors (type b) @ status_errors (status b) @ de), db)"
  using assms by (simp add: post_equipment_def Let_def)

lemma utf8_text_plain: "list_all (\<lambda>c. c < 55296) s \<Longrightarrow> utf8_text s = s"
  by (induction s rule: utf8_text.induct)
     (auto simp: is_high_surrogate_def is_low_surrogate_def)

lemma utf8_text_VALID_TYPES: "t \<in> set VALID_TYPES \<Longrightarrow> utf8_text t = t"
  by (rule utf8_text_plain) (auto simp: VALID_TYPES_def str_def)

lemma utf8_text_VALID_STATUSES: "u \<in> set VALID_STATUSES \<Longrightarrow> utf8_text u = u"
  by (rule utf8_text_plain) (auto simp: VALID_STATUSES_def str_def)

lemma exponent_small: "k < 9007199254740992 \<Longrightarrow> exponent k = 0"
  by (simp add: exponent.simps)

lemma js_number_exact:
  assumes "k \<le> 9007199254740992"
  shows "js_number k = k"
proof (cases "k < 9007199254740992")
  case True
  then show ?thesis by (simp add: js_number_def exponent_small)
next
  case False
  with assms have k: "k = 9007199254740992" by simp
  have "exponent 9007199254740992 = Suc 0"
    by (simp add: exponent.simps [of 9007199254740992] exponent_small)
  then show ?thesis by (simp add: js_number_def k)
qed

lemma js_number_tie: "js_number 9007199254740993 = 9007199254740992"
proof -
  have "exponent 9007199254740993 = Suc 0"
    by (simp add: exponent.simps [of 9007199254740993] exponent_small)
  then show ?thesis by (simp add: js_number_def)
qed

lemma exponent_large:
  "9007199254740992 \<le> k \<Longrightarrow> 0 < exponent k \<and> 4503599627370496 \<le> k div 2 ^ exponent k"
proof (induction k rule: exponent.induct)
  case (1 k)
  from "1.prems" have e: "exponent k = Suc (exponent (k div 2))"
    by (simp add: exponent.simps [of k])
  have d: "k div 2 ^ Suc n = (k div 2) div 2 ^ n" for n
    by (simp add: zdiv_zmult2_eq)
  show ?case
  proof (cases "k div 2 < 9007199254740992")
    case True
    from "1.prems" have "4503599627370496 \<le> k div 2" by simp
    with True show ?thesis by (simp add: e exponent_small)
  next
    case False
    with "1.IH" "1.prems" have "4503599627370496 \<le> (k div 2) div 2 ^ exponent (k div 2)"
      by simp
    then show ?thesis unfolding e d by simp
  qed
qed

lemma js_number_large:
  assumes "9007199254740992 \<le> k"
  shows "9007199254740992 \<le> js_number k"
proof -
  let ?e = "exponent k"
  let ?q = "k div 2 ^ ?e"
  let ?q' = "if 2 * (k mod 2 ^ ?e) < 2 ^ ?e \<or> (2 * (k mod 2 ^ ?e) = 2 ^ ?e \<and> even ?q)
             then ?q else ?q + 1"
  from exponent_large [OF assms] have e: "0 < ?e" and q: "4503599627370496 \<le> ?q" by simp_all
  from e obtain n where n: "?e = Suc n" by (cases ?e) auto
  have two: "(2::int) \<le> 2 ^ ?e" unfolding n by simp
  from q have q': "4503599627370496 \<le> ?q'" by simp
  have "4503599627370496 * 2 \<le> ?q' * 2 ^ ?e"
    by (rule mult_mono [OF q' two]) (use q' in simp_all)
  then show ?thesis by (simp add: js_number_def Let_def)
qed

lemma largest_rowid_snoc:
  "0 \<le> id_col r \<Longrightarrow> largest_rowid (xs @ [r]) = max (largest_rowid xs) (id_col r)"
  by (induction xs) (auto simp: largest_rowid_def)

lemma largest_rowid_nonneg: "0 \<le> largest_rowid xs"
  by (induction xs) (auto simp: largest_rowid_def)

lemma next_rowid_created:
  assumes "id_col r = next_rowid db"
  shows "next_rowid \<lparr>equipment_tbl = equipment_tbl db @ [r], sqlite_sequence = next_rowid db\<rparr>
     = next_rowid db + 1"
proof -
  have "0 \<le> next_rowid db"
    using largest_rowid_nonneg [of "equipment_tbl db"] by (simp add: next_rowid_def)
  with assms have "largest_rowid (equipment_tbl db @ [r])
      = max (largest_rowid (equipment_tbl db)) (next_rowid db)"
    by (simp add: largest_rowid_snoc)
  then show ?thesis
    by (simp add: next_rowid_def)
qed

lemma created_row_eq:
  assumes "name b = JStr s" "type b = JStr t" "status b = JStr u"
  shows "created_row drv now b db = new_row drv now s t u (lastCleanedDate b) db"
  using assms by (simp add: created_row_def)

lemma id_col_created_row [simp]: "id_col (created_row drv now b db) = next_rowid db"
  by (simp add: created_row_def new_row_def)

lemma select_created_row:
  assumes "next_rowid db \<le> 9007199254740992"
  shows "select_by_id (Some (js_number (next_rowid db)))
           \<lparr>equipment_tbl = equipment_tbl db @ [created_row drv now b db],
            sqlite_sequence = next_rowid db\<rparr> = Some (created_row drv now b db)"
  unfolding js_number_exact [OF assms] by (rule select_new_row) simp

lemma post_equipment_valid:
  assumes n: "name_ok (name b)"
    and t: "includes_val VALID_TYPES (type b)"
    and u: "includes_val VALID_STATUSES (status b)"
    and d: "date_errors (lastCleanedDate b) = Some []"
  shows "post_equipment drv now b db =
     (if next_rowid db > 9223372036854775807 then (ServerError, db)
      else (Created (select_by_id (Some (js_number (next_rowid db)))
               \<lparr>equipment_tbl = equipment_tbl db @ [created_row drv now b db],
                sqlite_sequence = next_rowid db\<rparr>),
            \<lparr>equipment_tbl = equipment_tbl db @ [created_row drv now b db],
             sqlite_sequence = next_rowid db\<rparr>))"
proof -
  from n t u obtain s t' u' where v: "name b = JStr s" "trim s \<noteq> []" "type b = JStr t'"
      "t' \<in> set VALID_TYPES" "status b = JStr u'" "u' \<in> set VALID_STATUSES"
    by (cases "name b"; cases "type b"; cases "status b") auto
  have errs: "name_errors (name b) = []" "type_errors (type b) = []" "status_errors (status b) = []"
    using v by (simp_all add: name_errors_Nil_iff type_errors_Nil_iff status_errors_Nil_iff)
  have chk: "type_check t'" "status_check u'"
    using v by (simp_all add: VALID_TYPES_checked VALID_STATUSES_checked)
  have pd: "text_affinity (bind drv (if truthy (lastCleanedDate b) then lastCleanedDate b else JNull))
      = stored_date drv (lastCleanedDate b)"
    by (simp add: stored_date_def bind_def)
  have row: "created_row drv now b db = new_row drv now s t' u' (lastCleanedDate b) db"
    using v by (simp add: created_row_eq)
  have ins: "sql_insert now (TEXT (utf8_text (trim s))) (TEXT t') (TEXT u')
       (bind drv (if truthy (lastCleanedDate b) then lastCleanedDate b else JNull)) db =
     (if next_rowid db > 9223372036854775807 then Inl SQLITE_FULL
      else Inr (next_rowid db,
            \<lparr>equipment_tbl = equipment_tbl db @ [created_row drv now b db],
             sqlite_sequence = next_rowid db\<rparr>))"
    using chk by (simp add: sql_insert_def row new_row_def pd del: if_split)
  have b: "bind drv (JStr (trim s)) = TEXT (utf8_text (trim s))" "bind drv (JStr t') = TEXT t'"
    "bind drv (JStr u') = TEXT u'"
    using v by (simp_all add: bind_def utf8_text_VALID_TYPES utf8_text_VALID_STATUSES)
  show ?thesis
    using v d errs by (simp add: post_equipment_def b ins)
qed

lemma post_equipment_CreatedD:
  assumes "fst (post_equipment drv now b db) = Created ro"
  shows "name_ok (name b) \<and> includes_val VALID_TYPES (type b)
           \<and> includes_val VALID_STATUSES (status b)
           \<and> date_errors (lastCleanedDate b) = Some []
           \<and> next_rowid db \<le> 9223372036854775807
           \<and> snd (post_equipment drv now b db) =
               \<lparr>equipment_tbl = equipment_tbl db @ [created_row drv now b db],
                sqlite_sequence = next_rowid db\<rparr>
           \<and> ro = select_by_id (Some (js_number (next_rowid db)))
                    (snd (post_equipment drv now b db))"
proof (cases "date_errors (lastCleanedDate b)")
  case None
  with assms show ?thesis by (simp add: post_equipment_throws)
next
  case (Some de)
  let ?errs = "name_errors (name b) @ type_errors (type b) @ status_errors (status b) @ de"
  have "?errs = []"
  proof (rule ccontr)
    assume "?errs \<noteq> []"
    from post_equipment_invalid [OF Some this] assms show False by simp
  qed
  then have v: "name_ok (name b)" "includes_val VALID_TYPES (type b)"
      "includes_val VALID_STATUSES (status b)" and de: "de = []"
    by (auto simp: name_errors_Nil_iff type_errors_Nil_iff status_errors_Nil_iff)
  from Some de have d: "date_errors (lastCleanedDate b) = Some []" by simp
  note eq = post_equipment_valid [OF v d, of drv now db]
  show ?thesis
    using assms v d unfolding eq by (auto split: if_splits)
qed

lemma post_equipment_exact:
  assumes "name_ok (name b)" "includes_val VALID_TYPES (type b)"
    "includes_val VALID_STATUSES (status b)" "date_errors (lastCleanedDate b) = Some []"
    and "next_rowid db \<le> 9007199254740992"
  shows "post_equipment drv now b db =
     (Created (Some (created_row drv now b db)),
      \<lparr>equipment_tbl = equipment_tbl db @ [created_row drv now b db],
       sqlite_sequence = next_rowid db\<rparr>)"
  using assms(5) unfolding post_equipment_valid [OF assms(1-4)]
  by (simp add: select_created_row)

lemma post_equipment_sequence:
  "sqlite_sequence db \<le> sqlite_sequence (snd (post_equipment drv now b db))"
  using next_rowid_gt_seq [of db]
  by (auto simp: post_equipment_def Let_def split: option.splits sum.splits prod.splits
           dest!: sql_insert_InrD)

lemma sql_update_sequence:
  "sql_update now as k db = Inr db' \<Longrightarrow> sqlite_sequence db' = sqlite_sequence db"
  by (auto simp: sql_update_def split: option.splits)

lemma put_equipment_sequence:
  "sqlite_sequence (snd (put_equipment drv now p b db)) = sqlite_sequence db"
  by (auto simp: put_equipment_def run_update_def split: option.splits sum.splits
           dest: sql_update_sequence)

lemma delete_equipment_sequence:
  "sqlite_sequence (snd (delete_equipment p db)) = sqlite_sequence db"
  by (auto simp: delete_equipment_def sql_delete_def split: option.splits)

lemma handle_sequence: "sqlite_sequence db \<le> sqlite_sequence (snd (handle drv now rq db))"
  by (cases rq)
     (simp_all add: get_equipment_def post_equipment_sequence put_equipment_sequence
        delete_equipment_sequence)

lemma put_fields_InlD:
  "put_fields b = Inl r \<Longrightarrow> r = ServerError \<or> (\<exists>m. r = ValidationFailed [m])"
  by (auto simp: put_fields_def put_name_def put_type_def put_status_def put_date_def
           split: sum.splits if_splits option.splits)

lemma handle_CreatedD:
  assumes "fst (handle drv now rq db) = Created ro"
  shows "sqlite_sequence db < sqlite_sequence (snd (handle drv now rq db))
     \<and> (\<forall>r. ro = Some r \<longrightarrow> id_col r = js_number (sqlite_sequence (snd (handle drv now rq db))))
     \<and> (sqlite_sequence (snd (handle drv now rq db)) \<le> 9007199254740992 \<longrightarrow>
          (\<exists>r. ro = Some r \<and> id_col r = sqlite_sequence (snd (handle drv now rq db))))"
proof (cases rq)
  case GetAll
  with assms show ?thesis by (simp add: get_equipment_def)
next
  case (Post b)
  with assms have c: "fst (post_equipment drv now b db) = Created ro" by simp
  note d = post_equipment_CreatedD [OF c]
  from d have db': "snd (post_equipment drv now b db) =
      \<lparr>equipment_tbl = equipment_tbl db @ [created_row drv now b db],
       sqlite_sequence = next_rowid db\<rparr>"
    and ro: "ro = select_by_id (Some (js_number (next_rowid db)))
      (snd (post_equipment drv now b db))"
    by simp_all
  have 1: "sqlite_sequence db < sqlite_sequence (snd (post_equipment drv now b db))"
    using next_rowid_gt_seq [of db] by (simp add: db')
  have 2: "id_col r = js_number (sqlite_sequence (snd (post_equipment drv now b db)))"
    if "ro = Some r" for r
    using that ro select_by_id_SomeD [of "Some (js_number (next_rowid db))" _ r]
    by (simp add: db')
  have 3: "\<exists>r. ro = Some r \<and> id_col r = sqlite_sequence (snd (post_equipment drv now b db))"
    if "sqlite_sequence (snd (post_equipment drv now b db)) \<le> 9007199254740992"
  proof -
    from that have "next_rowid db \<le> 9007199254740992" by (simp add: db')
    from select_created_row [OF this, of drv now b] ro show ?thesis
      by (simp add: db')
  qed
  from 1 2 3 Post show ?thesis by simp
next
  case (Put p b)
  with assms show ?thesis
    by (auto simp: put_equipment_def split: option.splits sum.splits if_splits
             dest: put_fields_InlD)
next
  case (Delete p)
  with assms show ?thesis
    by (auto simp: delete_equipment_def split: option.splits if_splits)
qed

lemma serve_length [simp]: "length (serve drv db rqs) = length rqs"
  by (induction rqs arbitrary: db) auto

lemma serve_later_create:
  "j < length rqs \<Longrightarrow> serve drv db rqs ! j = Created (Some r) \<Longrightarrow>
     \<exists>k. sqlite_sequence db < k \<and> id_col r = js_number k"
proof (induction rqs arbitrary: db j)
  case Nil
  then show ?case by simp
next
  case (Cons x rqs)
  obtain now rq where x: "x = (now, rq)" by (cases x)
  show ?case
  proof (cases j)
    case 0
    with Cons.prems x have c: "fst (handle drv now rq db) = Created (Some r)" by simp
    from handle_CreatedD [OF c] show ?thesis
      by (intro exI [of _ "sqlite_sequence (snd (handle drv now rq db))"]) simp
  next
    case (Suc j')
    with Cons.prems x obtain k where "sqlite_sequence (snd (handle drv now rq db)) < k"
        "id_col r = js_number k"
      using Cons.IH [of j' "snd (handle drv now rq db)"] by auto
    with handle_sequence [of db drv now rq] show ?thesis
      by (intro exI [of _ k]) simp
  qed
qed

lemma name_ok_iff: "name_ok v \<longleftrightarrow> (\<exists>s. v = JStr s \<and> trim s \<noteq> [])"
  by (cases v) auto

lemma put_fields_eq:
  "put_fields b =
     (if name b \<noteq> JUndefined \<and> \<not> name_ok (name b) then Inl (ValidationFailed [name_invalid])
      else if type b \<noteq> JUndefined \<and> \<not> includes_val VALID_TYPES (type b)
        then Inl (ValidationFailed [type_invalid])
      else if status b \<noteq> JUndefined \<and> \<not> includes_val VALID_STATUSES (status b)
        then Inl (ValidationFailed [status_invalid])
      else if lastCleanedDate b \<noteq> JUndefined \<and> lastCleanedDate b \<noteq> JNull
              \<and> regex_test (lastCleanedDate b) = None
        then Inl ServerError
      else if lastCleanedDate b \<noteq> JUndefined \<and> lastCleanedDate b \<noteq> JNull
              \<and> regex_test (lastCleanedDate b) = Some False
        then Inl (ValidationFailed [date_format])
      else Inr (supplied_updates b))"
  by (cases "name b")
     (auto simp: put_fields_def put_name_def put_type_def put_status_def put_date_def
        supplied_updates_def split: option.splits)


lemma includes_val_iff: "includes_val xs v \<longleftrightarrow> (\<exists>t. v = JStr t \<and> t \<in> set xs)"
  by (cases v) auto

lemma assign_all_append:
  "assign_all now (xs @ ys) r =
     (case assign_all now xs r of None \<Rightarrow> None | Some r' \<Rightarrow> assign_all now ys r')"
  by (induction xs arbitrary: r) (auto split: option.splits)

lemma assign_all_supplied:
  assumes n: "name b = JUndefined \<or> name_ok (name b)"
    and t: "type b = JUndefined \<or> includes_val VALID_TYPES (type b)"
    and u: "status b = JUndefined \<or> includes_val VALID_STATUSES (status b)"
  shows "assign_all now
      (map (\<lambda>(c, v). Set c (bind drv v)) (supplied_updates b) @ [SetUpdatedAtNow]) x
    = Some (updated_row drv now b x)"
proof -
  let ?bf = "\<lambda>(c, v). Set c (bind drv v)"
  let ?N = "case name b of JStr s \<Rightarrow> [(Name, JStr (trim s))] | _ \<Rightarrow> []"
  let ?T = "if type b \<noteq> JUndefined then [(Type, type b)] else []"
  let ?U = "if status b \<noteq> JUndefined then [(Status, status b)] else []"
  let ?D = "if lastCleanedDate b \<noteq> JUndefined then [(LastCleanedDate, lastCleanedDate b)] else []"
  have aN: "assign_all now (map ?bf ?N) x =
      Some (x\<lparr>name_col := (case name b of JStr s \<Rightarrow> utf8_text (trim s) | _ \<Rightarrow> name_col x)\<rparr>)" for x
    using n by (auto simp: name_ok_iff bind_def)
  have aT: "assign_all now (map ?bf ?T) x =
      Some (x\<lparr>type_col := (case type b of JStr s \<Rightarrow> s | _ \<Rightarrow> type_col x)\<rparr>)" for x
    using t by (auto simp: includes_val_iff VALID_TYPES_checked bind_def utf8_text_VALID_TYPES)
  have aU: "assign_all now (map ?bf ?U) x =
      Some (x\<lparr>status_col := (case status b of JStr s \<Rightarrow> s | _ \<Rightarrow> status_col x)\<rparr>)" for x
    using u
    by (auto simp: includes_val_iff VALID_STATUSES_checked bind_def utf8_text_VALID_STATUSES)
  have aD: "assign_all now (map ?bf ?D) x =
      Some (x\<lparr>lastCleanedDate_col :=
         (if lastCleanedDate b = JUndefined then lastCleanedDate_col x
          else text_affinity (bind drv (lastCleanedDate b)))\<rparr>)" for x
    by auto
  show ?thesis
    unfolding supplied_updates_def map_append append_assoc assign_all_append aN aT aU aD
    by (simp add: updated_row_def cong: jsval.case_cong)
qed

lemma those_map_Some: "those (map (\<lambda>x. Some (g x)) xs) = Some (map g xs)"
  by (induction xs) auto

lemma sql_update_total:
  assumes "\<And>x. assign_all now as x = Some (f x)"
  shows "sql_update now as k db =
     Inr (db\<lparr>equipment_tbl := map (\<lambda>r. if Some (id_col r) = k then f r else r) (equipment_tbl db)\<rparr>)"
proof -
  have "(\<lambda>r. if Some (id_col r) = k then assign_all now as r else Some r) =
        (\<lambda>r. Some (if Some (id_col r) = k then f r else r))"
    using assms by auto
  then show ?thesis
    by (simp add: sql_update_def those_map_Some)
qed

lemma find_map_same_key:
  assumes "\<And>x. P (h x) = P x"
  shows "find P (map h xs) = map_option h (find P xs)"
  using assms by (induction xs) auto

lemma id_col_updated_row [simp]: "id_col (updated_row drv now b x) = id_col x"
  by (simp add: updated_row_def)

lemma put_fields_InrD:
  assumes "put_fields b = Inr ups"
  shows "ups = supplied_updates b"
    and "name b = JUndefined \<or> name_ok (name b)"
    and "type b = JUndefined \<or> includes_val VALID_TYPES (type b)"
    and "status b = JUndefined \<or> includes_val VALID_STATUSES (status b)"
    and "lastCleanedDate b = JUndefined \<or> lastCleanedDate b = JNull
           \<or> regex_test (lastCleanedDate b) = Some True"
  using assms unfolding put_fields_eq by (auto split: if_splits)

lemma put_equipment_existing:
  assumes "\<not> blank p" "\<not> isNaN p" "select_by_id (rowid p) db = Some r"
  shows "put_equipment drv now p b db =
     (case put_fields b of
        Inl resp \<Rightarrow> (resp, db)
      | Inr ups \<Rightarrow>
          if ups = [] then (NoFields, db)
          else (Updated (Some (updated_row drv now b r)),
                db\<lparr>equipment_tbl :=
                     map (\<lambda>x. if Some (id_col x) = rowid p then updated_row drv now b x else x)
                       (equipment_tbl db)\<rparr>))"
proof (cases "put_fields b")
  case (Inl resp)
  with assms show ?thesis by (simp add: put_equipment_def)
next
  case (Inr ups)
  note v = put_fields_InrD [OF Inr]
  let ?db' = "db\<lparr>equipment_tbl :=
                 map (\<lambda>x. if Some (id_col x) = rowid p then updated_row drv now b x else x)
                   (equipment_tbl db)\<rparr>"
  have ru: "run_update drv now ups (rowid p) db = Some ?db'"
    unfolding run_update_def v(1)
    by (simp add: sql_update_total [of now _ "updated_row drv now b",
          OF assign_all_supplied [OF v(2-4)]])
  have "select_by_id (rowid p) ?db' =
      map_option (\<lambda>x. if Some (id_col x) = rowid p then updated_row drv now b x else x)
        (select_by_id (rowid p) db)"
    unfolding select_by_id_def by (simp add: find_map_same_key)
  with assms(3) select_by_id_SomeD [OF assms(3)]
  have sel: "select_by_id (rowid p) ?db' = Some (updated_row drv now b r)" by simp
  show ?thesis
    using assms Inr ru sel by (simp add: put_equipment_def)
qed

lemma insort_key_snoc:
  "f x \<le> f y \<Longrightarrow> insort_key f x (zs @ [y]) = insort_key f x zs @ [y]"
  by (induction zs) auto

lemma foldr_insort_key_snoc:
  "\<forall>x \<in> set xs. f x \<le> f y \<Longrightarrow>
     foldr (insort_key f) xs [y] = foldr (insort_key f) xs [] @ [y]"
  by (induction xs) (auto simp: insort_key_snoc)

lemma sort_key_snoc:
  "\<forall>x \<in> set xs. f x \<le> f y \<Longrightarrow> sort_key f (xs @ [y]) = sort_key f xs @ [y]"
  by (simp add: sort_key_def foldr_insort_key_snoc)

lemma select_all_desc_created:
  assumes "fst (post_equipment drv now b db) = Created ro"
  shows "select_all_desc (snd (post_equipment drv now b db))
     = created_row drv now b db # select_all_desc db"
proof -
  from post_equipment_CreatedD [OF assms] have
    db': "snd (post_equipment drv now b db) =
      \<lparr>equipment_tbl = equipment_tbl db @ [created_row drv now b db],
       sqlite_sequence = next_rowid db\<rparr>"
    by simp
  have "\<forall>x \<in> set (equipment_tbl db). id_col x \<le> id_col (created_row drv now b db)"
    using next_rowid_gt [of _ db] by fastforce
  then show ?thesis
    by (simp add: select_all_desc_def db' sort_key_snoc)
qed

lemma select_by_id_deleted: "select_by_id k (sql_delete k db) = None"
  by (simp add: select_by_id_None sql_delete_def)

lemma select_by_id_updated:
  assumes "select_by_id k db = Some r"
  shows "select_by_id k
     (db\<lparr>equipment_tbl :=
          map (\<lambda>x. if Some (id_col x) = k then updated_row drv now b x else x) (equipment_tbl db)\<rparr>)
     = Some (updated_row drv now b r)"
proof -
  have "select_by_id k
     (db\<lparr>equipment_tbl :=
          map (\<lambda>x. if Some (id_col x) = k then updated_row drv now b x else x) (equipment_tbl db)\<rparr>)
     = map_option (\<lambda>x. if Some (id_col x) = k then updated_row drv now b x else x)
        (select_by_id k db)"
    unfolding select_by_id_def by (simp add: find_map_same_key)
  with assms select_by_id_SomeD [OF assms] show ?thesis by simp
qed

lemma filter_others_updated:
  "filter (\<lambda>x. Some (id_col x) \<noteq> k)
     (map (\<lambda>x. if Some (id_col x) = k then updated_row drv now b x else x) xs)
   = filter (\<lambda>x. Some (id_col x) \<noteq> k) xs"
  by (induction xs) auto

lemma supplied_updates_Nil:
  assumes "supplied_updates b = []"
    and "name b = JUndefined \<or> name_ok (name b)"
  shows "name b = JUndefined \<and> type b = JUndefined \<and> status b = JUndefined
         \<and> lastCleanedDate b = JUndefined"
  using assms by (cases "name b") (auto simp: supplied_updates_def split: if_splits)

lemma regex_test_empty: "regex_test (JStr []) = Some False"
  by (simp add: regex_test_def date_pattern_def)

lemma date_format_distinct:
  "date_format \<noteq> name_invalid" "date_format \<noteq> type_invalid" "date_format \<noteq> status_invalid"
  "date_format \<noteq> name_required" "date_format \<noteq> type_required"
  "date_format \<noteq> status_required"
  by (simp_all add: date_format_def name_invalid_def type_invalid_def status_invalid_def
       name_required_def type_required_def status_required_def str_def)

lemma put_fields_date_failure:
  assumes "name b = JUndefined \<or> name_ok (name b)"
    and "type b = JUndefined \<or> includes_val VALID_TYPES (type b)"
    and "status b = JUndefined \<or> includes_val VALID_STATUSES (status b)"
  shows "put_fields b = Inl (ValidationFailed [date_format]) \<longleftrightarrow>
     lastCleanedDate b \<noteq> JUndefined \<and> lastCleanedDate b \<noteq> JNull
     \<and> regex_test (lastCleanedDate b) = Some False"
  using assms unfolding put_fields_eq by auto

lemma length_ten:
  "length s = 10 \<Longrightarrow> \<exists>a b c d e f g h i j. s = [a, b, c, d, e, f, g, h, i, j]"
  by (auto simp: numeral_eq_Suc length_Suc_conv)

lemma date_pattern_iff:
  "date_pattern s \<longleftrightarrow>
     (\<exists>y1 y2 y3 y4 m1 m2 d1 d2.
        s = [y1, y2, y3, y4, 45, m1, m2, 45, d1, d2]
        \<and> is_digit y1 \<and> is_digit y2 \<and> is_digit y3 \<and> is_digit y4
        \<and> is_digit m1 \<and> is_digit m2 \<and> is_digit d1 \<and> is_digit d2)"
proof
  assume d: "date_pattern s"
  then have "length s = 10" by (simp add: date_pattern_def)
  from length_ten [OF this] obtain a b c d e f g h i j
    where s: "s = [a, b, c, d, e, f, g, h, i, j]" by blast
  from d show "\<exists>y1 y2 y3 y4 m1 m2 d1 d2.
        s = [y1, y2, y3, y4, 45, m1, m2, 45, d1, d2]
        \<and> is_digit y1 \<and> is_digit y2 \<and> is_digit y3 \<and> is_digit y4
        \<and> is_digit m1 \<and> is_digit m2 \<and> is_digit d1 \<and> is_digit d2"
    unfolding s by (simp add: date_pattern_def)
next
  assume "\<exists>y1 y2 y3 y4 m1 m2 d1 d2.
        s = [y1, y2, y3, y4, 45, m1, m2, 45, d1, d2]
        \<and> is_digit y1 \<and> is_digit y2 \<and> is_digit y3 \<and> is_digit y4
        \<and> is_digit m1 \<and> is_digit m2 \<and> is_digit d1 \<and> is_digit d2"
  then show "date_pattern s"
    by (auto simp: date_pattern_def)
qed

lemma regex_test_2025_13_40: "regex_test (JStr (str ''2025-13-40'')) = Some True"
  by (simp add: regex_test_def date_pattern_def is_digit_def str_def)

lemma name_errors_eq: "name_errors v = (if \<not> name_ok v then [name_required] else [])"
  by (cases v) (auto simp: name_errors_def)

lemma type_errors_eq:
  "type_errors v = (if \<not> includes_val VALID_TYPES v then [type_required] else [])"
  by (cases v) (auto simp: type_errors_def dest: VALID_TYPES_nonempty)

lemma status_errors_eq:
  "status_errors v = (if \<not> includes_val VALID_STATUSES v then [status_required] else [])"
  by (cases v) (auto simp: status_errors_def dest: VALID_STATUSES_nonempty)

lemma date_errors_eq:
  assumes "ToString d \<noteq> None"
  shows "date_errors d =
     Some (if truthy d \<and> regex_test d = Some False then [date_format] else [])"
  using assms by (auto simp: date_errors_def regex_test_def)

lemma post_equipment_failures:
  assumes "ToString (lastCleanedDate b) \<noteq> None"
  shows "date_errors (lastCleanedDate b) =
       Some (if truthy (lastCleanedDate b) \<and> regex_test (lastCleanedDate b) = Some False
             then [date_format] else [])"
    and "name_errors (name b) @ type_errors (type b) @ status_errors (status b) @
       (if truthy (lastCleanedDate b) \<and> regex_test (lastCleanedDate b) = Some False
        then [date_format] else []) = create_failures b"
  using assms
  by (simp_all add: date_errors_eq create_failures_def name_errors_eq type_errors_eq
        status_errors_eq)

lemma assign_row_ok: "row_ok r \<Longrightarrow> assign now a r = Some r' \<Longrightarrow> row_ok r'"
  by (cases "(now, a, r)" rule: assign.cases)
     (auto simp: row_ok_def type_check_def status_check_def split: option.splits if_splits)

lemma assign_all_row_ok: "row_ok r \<Longrightarrow> assign_all now as r = Some r' \<Longrightarrow> row_ok r'"
  by (induction as arbitrary: r) (auto split: option.splits dest: assign_row_ok)

lemma those_map_list_all:
  assumes "those (map f xs) = Some ys" and "list_all P xs"
    and "\<And>x y. P x \<Longrightarrow> f x = Some y \<Longrightarrow> P y"
  shows "list_all P ys"
  using assms by (induction xs arbitrary: ys) (auto split: option.splits)

lemma sql_update_enum_ok:
  assumes "enum_ok db" and "sql_update now as k db = Inr db'"
  shows "enum_ok db'"
proof -
  from assms(2) obtain rs where rs:
    "those (map (\<lambda>r. if Some (id_col r) = k then assign_all now as r else Some r)
        (equipment_tbl db)) = Some rs" and db': "db' = db\<lparr>equipment_tbl := rs\<rparr>"
    by (auto simp: sql_update_def split: option.splits)
  have "list_all row_ok rs"
    by (rule those_map_list_all [OF rs])
       (use assms(1) in \<open>auto simp: enum_ok_def split: if_splits dest: assign_all_row_ok\<close>)
  then show ?thesis by (simp add: enum_ok_def db')
qed

lemma sql_insert_enum_ok:
  assumes "enum_ok db" and "sql_insert now n t s d db = Inr (k, db')"
  shows "enum_ok db'"
  using assms(1) sql_insert_InrD [OF assms(2)]
  by (auto simp: enum_ok_def row_ok_def type_check_def status_check_def)

lemma sql_delete_enum_ok: "enum_ok db \<Longrightarrow> enum_ok (sql_delete k db)"
  by (simp add: enum_ok_def sql_delete_def list_all_iff)

lemma handle_enum_ok:
  assumes "enum_ok db"
  shows "enum_ok (snd (handle drv now rq db))"
proof (cases rq)
  case GetAll
  with assms show ?thesis by (simp add: get_equipment_def)
next
  case (Post b)
  with assms show ?thesis
    by (auto simp: post_equipment_def Let_def split: option.splits sum.splits prod.splits
             dest: sql_insert_enum_ok)
next
  case (Put p b)
  with assms show ?thesis
    by (auto simp: put_equipment_def run_update_def split: option.splits sum.splits
             dest: sql_update_enum_ok)
next
  case (Delete p)
  with assms show ?thesis
    by (auto simp: delete_equipment_def sql_delete_enum_ok split: option.splits)
qed

lemma reachable_enum_ok: "reachable drv db \<Longrightarrow> enum_ok db"
proof (induction rule: reachable.induct)
  case start
  show ?case by (simp add: enum_ok_def initialize_def)
next
  case (step db now rq)
  then show ?case by (simp add: handle_enum_ok)
qed

lemma sql_insert_rejects:
  assumes "text_affinity t = Some t' \<and> \<not> type_check t'
           \<or> text_affinity s = Some s' \<and> \<not> status_check s'"
  shows "sql_insert now n t s d db = Inl SQLITE_CONSTRAINT"
  using assms by (auto simp: sql_insert_def split: option.splits)

lemma type_required_names_type: "take 4 type_required = str ''type''"
  by (simp add: type_required_def str_def)

lemma rev_dropWhile_split: "t = rev (dropWhile P (rev t)) @ rev (takeWhile P (rev t))"
proof -
  have "rev (rev t) = rev (takeWhile P (rev t) @ dropWhile P (rev t))"
    by (simp only: takeWhile_dropWhile_id)
  then show ?thesis
    by (simp only: rev_rev_ident rev_append)
qed

lemma dropWhile_trim:
  "dropWhile is_space s = trim s @ rev (takeWhile is_space (rev (dropWhile is_space s)))"
  unfolding trim_def by (rule rev_dropWhile_split)

lemma trim_decomposition:
  "s = takeWhile is_space s @ trim s @ rev (takeWhile is_space (rev (dropWhile is_space s)))"
proof -
  have "s = takeWhile is_space s @ dropWhile is_space s" by simp
  then show ?thesis using dropWhile_trim [of s] by simp
qed

lemma trim_ends:
  assumes "trim s \<noteq> []"
  shows "\<not> is_space (hd (trim s))" and "\<not> is_space (last (trim s))"
proof -
  let ?t = "dropWhile is_space s"
  have "trim s = []" if "?t = []"
    unfolding trim_def that by simp
  with assms have "?t \<noteq> []" by blast
  then have "\<not> is_space (hd ?t)" by (rule hd_dropWhile)
  moreover from assms have "hd ?t = hd (trim s)"
    using dropWhile_trim [of s] by (metis hd_append2)
  ultimately show "\<not> is_space (hd (trim s))" by simp
  from assms have ne: "dropWhile is_space (rev ?t) \<noteq> []" by (simp add: trim_def)
  then have "\<not> is_space (hd (dropWhile is_space (rev ?t)))" by (rule hd_dropWhile)
  with ne show "\<not> is_space (last (trim s))"
    by (simp add: trim_def last_rev)
qed

lemma trim_spaces:
  "list_all is_space (takeWhile is_space s)"
  "list_all is_space (rev (takeWhile is_space (rev (dropWhile is_space s))))"
  by (auto simp: list_all_iff dest: set_takeWhileD)

lemma name_required_names_name: "take 4 name_required = str ''name''"
  by (simp add: name_required_def str_def)

text \<open>
  No number passes the pattern test: its text has no hyphen after a digit. So a number
  given as lastCleanedDate is either falsy or a validation failure.
\<close>

lemma digits_are_digits: "c \<in> set (digits n) \<Longrightarrow> is_digit c"
proof (induction n rule: digits.induct)
  case (1 n)
  show ?case
  proof (cases "n < 10")
    case True
    with "1.prems" show ?thesis
      by (simp add: digits.simps [of n] is_digit_def)
  next
    case False
    with "1.prems" have "c \<in> set (digits (n div 10)) \<or> c = 48 + n mod 10"
      by (auto simp: digits.simps [of n])
    with False "1.IH" show ?thesis
      by (auto simp: is_digit_def)
  qed
qed

lemma date_pattern_decimal: "\<not> date_pattern (decimal n)"
proof
  assume d: "date_pattern (decimal n)"
  then obtain y1 y2 y3 y4 m1 m2 d1 d2 where
    s: "decimal n = [y1, y2, y3, y4, 45, m1, m2, 45, d1, d2]"
    unfolding date_pattern_iff by blast
  show False
  proof (cases "n < 0")
    case True
    with s have "digits (nat (- n)) = [y2, y3, y4, 45, m1, m2, 45, d1, d2]"
      by (simp add: decimal_def)
    then have "45 \<in> set (digits (nat (- n)))" by simp
    from digits_are_digits [OF this] show False by (simp add: is_digit_def)
  next
    case False
    with s have "digits (nat n) = [y1, y2, y3, y4, 45, m1, m2, 45, d1, d2]"
      by (simp add: decimal_def)
    then have "45 \<in> set (digits (nat n))" by simp
    from digits_are_digits [OF this] show False by (simp add: is_digit_def)
  qed
qed

lemma regex_test_number: "regex_test (JNum n) = Some False"
  by (simp add: regex_test_def date_pattern_decimal)

text \<open>
  What the two handlers answer when the pattern test returns a result: a create lists the
  messages of all failing fields, an update of an existing record gives the message of
  the first failing supplied field, and neither reports a validation failure when there
  is none.
\<close>

lemma validation_outcomes:
  "(ToString (lastCleanedDate b) \<noteq> None \<longrightarrow>
      (create_failures b \<noteq> [] \<longrightarrow>
         post_equipment drv now b db = (ValidationFailed (create_failures b), db)
         \<and> status_code (fst (post_equipment drv now b db)) = 400)
      \<and> (create_failures b = [] \<longrightarrow> status_code (fst (post_equipment drv now b db)) \<noteq> 400))
   \<and> (\<not> blank p \<and> \<not> isNaN p \<and> select_by_id (rowid p) db \<noteq> None \<longrightarrow>
      (update_failures b \<noteq> [] \<longrightarrow>
         put_equipment drv now p b db = (ValidationFailed [hd (update_failures b)], db)
         \<and> status_code (fst (put_equipment drv now p b db)) = 400)
      \<and> (update_failures b = [] \<longrightarrow>
           (\<forall>ds. fst (put_equipment drv now p b db) \<noteq> ValidationFailed ds)))"
proof -
  have create: "(create_failures b \<noteq> [] \<longrightarrow>
         post_equipment drv now b db = (ValidationFailed (create_failures b), db)
         \<and> status_code (fst (post_equipment drv now b db)) = 400)
      \<and> (create_failures b = [] \<longrightarrow> status_code (fst (post_equipment drv now b db)) \<noteq> 400)"
    if d: "ToString (lastCleanedDate b) \<noteq> None"
  proof -
    note f = post_equipment_failures [OF d]
    have "post_equipment drv now b db = (ValidationFailed (create_failures b), db)"
      if "create_failures b \<noteq> []"
      using post_equipment_invalid [OF f(1), of drv now db] that unfolding f(2) by simp
    moreover have "status_code (fst (post_equipment drv now b db)) \<noteq> 400"
      if "create_failures b = []"
    proof -
      from that f have de: "date_errors (lastCleanedDate b) = Some []"
        by (auto simp: create_failures_def split: if_splits)
      from that have "name_ok (name b)" "includes_val VALID_TYPES (type b)"
        "includes_val VALID_STATUSES (status b)"
        by (auto simp: create_failures_def split: if_splits)
      from post_equipment_valid [OF this de, of drv now db] show ?thesis by simp
    qed
    ultimately show ?thesis by simp
  qed
  have update: "(update_failures b \<noteq> [] \<longrightarrow>
         put_equipment drv now p b db = (ValidationFailed [hd (update_failures b)], db)
         \<and> status_code (fst (put_equipment drv now p b db)) = 400)
      \<and> (update_failures b = [] \<longrightarrow>
           (\<forall>ds. fst (put_equipment drv now p b db) \<noteq> ValidationFailed ds))"
    if p: "\<not> blank p" "\<not> isNaN p" "select_by_id (rowid p) db \<noteq> None"
  proof -
    from p(3) obtain r where r: "select_by_id (rowid p) db = Some r" by auto
    note eq = put_equipment_existing [OF p(1,2) r, of drv now b]
    show ?thesis
      unfolding eq put_fields_eq by (simp add: update_failures_def)
  qed
  show ?thesis using create update by blast
qed

text \<open>
  The two enumerations are an invariant of the store. The store enforces them itself,
  whatever parameters a statement is given: an insert or update that succeeds keeps them,
  and an insert whose type or status is a text outside its enumeration fails with a
  constraint violation. The create handler validates as well: when its pattern test
  returns a result, a type "Pump" is answered 400 with the message that names type.
\<close>

lemma enumerations_kept:
  "(reachable drv db \<longrightarrow> enum_ok db)
   \<and> (enum_ok db \<and> sql_insert now n t s d db = Inr (k, db') \<longrightarrow> enum_ok db')
   \<and> (enum_ok db \<and> sql_update now as kk db = Inr db' \<longrightarrow> enum_ok db')
   \<and> (text_affinity t = Some t' \<and> t' \<notin> set VALID_TYPES \<longrightarrow>
        sql_insert now n t s d db = Inl SQLITE_CONSTRAINT)
   \<and> (text_affinity s = Some s' \<and> s' \<notin> set VALID_STATUSES \<longrightarrow>
        sql_insert now n t s d db = Inl SQLITE_CONSTRAINT)
   \<and> (type b = JStr (str ''Pump'') \<and> ToString (lastCleanedDate b) \<noteq> None \<longrightarrow>
        (\<exists>ds. post_equipment drv now b db = (ValidationFailed ds, db) \<and> type_required \<in> set ds)
        \<and> status_code (fst (post_equipment drv now b db)) = 400
        \<and> take 4 type_required = str ''type'')"
proof -
  have pump: "(\<exists>ds. post_equipment drv now b db = (ValidationFailed ds, db) \<and> type_required \<in> set ds)
        \<and> status_code (fst (post_equipment drv now b db)) = 400
        \<and> take 4 type_required = str ''type''"
    if "type b = JStr (str ''Pump'')" and d: "ToString (lastCleanedDate b) \<noteq> None"
  proof -
    from that(1) have "\<not> includes_val VALID_TYPES (type b)"
      by (simp add: VALID_TYPES_def str_def)
    then have f: "type_required \<in> set (create_failures b)"
      by (simp add: create_failures_def)
    then have "create_failures b \<noteq> []" by auto
    with post_equipment_invalid [OF post_equipment_failures(1) [OF d], of drv now db]
    have "post_equipment drv now b db = (ValidationFailed (create_failures b), db)"
      unfolding post_equipment_failures(2) [OF d] by simp
    with f show ?thesis by (simp add: type_required_names_type)
  qed
  show ?thesis
    using reachable_enum_ok [of drv db] sql_insert_enum_ok [of db now n t s d k db']
      sql_update_enum_ok [of db now as kk db']
      sql_insert_rejects [of t t' s s' now n d db] pump
    by (simp add: VALID_TYPES_checked VALID_STATUSES_checked)
qed

text \<open>
  The name check and the trimming. A name fails when it is absent, not a string, or empty
  after trimming; when the pattern test of the date returns a result, a create with a
  failing name is answered 400 with the message that names name. A name that does not
  fail is trimmed before it is bound, on create and on update of an existing record, so
  the stored name is the trimmed one as UTF-8 holds it: unchanged when it has no
  surrogate, an unpaired surrogate replaced by U+FFFD.
\<close>

lemma name_checked_and_trimmed:
  "(\<not> name_ok v \<longleftrightarrow> v = JUndefined \<or> \<not> is_string v \<or> (\<exists>x. v = JStr x \<and> trim x = []))
   \<and> (\<not> name_ok (name b) \<and> ToString (lastCleanedDate b) \<noteq> None \<longrightarrow>
        (\<exists>ds. post_equipment drv now b db = (ValidationFailed ds, db) \<and> name_required \<in> set ds)
        \<and> status_code (fst (post_equipment drv now b db)) = 400
        \<and> take 4 name_required = str ''name'')
   \<and> (name b = JStr s \<longrightarrow>
        (\<forall>ro. fst (post_equipment drv now b db) = Created ro \<longrightarrow>
           (\<exists>r. equipment_tbl (snd (post_equipment drv now b db)) = equipment_tbl db @ [r]
              \<and> name_col r = utf8_text (trim s)
              \<and> (next_rowid db \<le> 9007199254740992 \<longrightarrow> ro = Some r))))
   \<and> (\<exists>pre post. s = pre @ trim s @ post \<and> list_all is_space pre \<and> list_all is_space post)
   \<and> (trim s \<noteq> [] \<longrightarrow> \<not> is_space (hd (trim s)) \<and> \<not> is_space (last (trim s)))
   \<and> (list_all (\<lambda>c. c < 55296) s \<longrightarrow> utf8_text s = s)
   \<and> utf8_text (trim (str ''  Tank 1  '')) = str ''Tank 1''
   \<and> utf8_text (trim [65, 55296, 66]) = [65, 65533, 66]
   \<and> (\<not> blank p \<and> \<not> isNaN p \<and> select_by_id (rowid p) db \<noteq> None \<and> name b = JStr s \<longrightarrow>
        (trim s = [] \<longrightarrow> put_equipment drv now p b db = (ValidationFailed [name_invalid], db))
        \<and> (\<forall>ro. fst (put_equipment drv now p b db) = Updated ro \<longrightarrow>
             (\<exists>r'. ro = Some r' \<and> name_col r' = utf8_text (trim s)
                \<and> select_by_id (rowid p) (snd (put_equipment drv now p b db)) = Some r')))"
proof -
  have abs: "\<not> name_ok v \<longleftrightarrow> v = JUndefined \<or> \<not> is_string v \<or> (\<exists>x. v = JStr x \<and> trim x = [])"
    by (cases v) auto
  have bad: "(\<exists>ds. post_equipment drv now b db = (ValidationFailed ds, db) \<and> name_required \<in> set ds)
        \<and> status_code (fst (post_equipment drv now b db)) = 400
        \<and> take 4 name_required = str ''name''"
    if "\<not> name_ok (name b)" and d: "ToString (lastCleanedDate b) \<noteq> None"
  proof -
    from that(1) have f: "name_required \<in> set (create_failures b)"
      by (simp add: create_failures_def)
    then have "create_failures b \<noteq> []" by auto
    with post_equipment_invalid [OF post_equipment_failures(1) [OF d], of drv now db]
    have "post_equipment drv now b db = (ValidationFailed (create_failures b), db)"
      unfolding post_equipment_failures(2) [OF d] by simp
    with f show ?thesis by (simp add: name_required_names_name)
  qed
  have good: "\<exists>r. equipment_tbl (snd (post_equipment drv now b db)) = equipment_tbl db @ [r]
              \<and> name_col r = utf8_text (trim s)
              \<and> (next_rowid db \<le> 9007199254740992 \<longrightarrow> ro = Some r)"
    if n: "name b = JStr s" and c: "fst (post_equipment drv now b db) = Created ro" for ro
  proof -
    note d = post_equipment_CreatedD [OF c]
    from d have db': "snd (post_equipment drv now b db) =
        \<lparr>equipment_tbl = equipment_tbl db @ [created_row drv now b db],
         sqlite_sequence = next_rowid db\<rparr>"
      and ro: "ro = select_by_id (Some (js_number (next_rowid db)))
        (snd (post_equipment drv now b db))"
      by simp_all
    have "name_col (created_row drv now b db) = utf8_text (trim s)"
      using n by (simp add: created_row_def new_row_def)
    moreover have "ro = Some (created_row drv now b db)" if "next_rowid db \<le> 9007199254740992"
      using select_created_row [OF that, of drv now b] ro by (simp add: db')
    ultimately show ?thesis by (simp add: db')
  qed
  have dec: "\<exists>pre post. s = pre @ trim s @ post \<and> list_all is_space pre \<and> list_all is_space post"
    using trim_decomposition [of s] trim_spaces [of s] by blast
  have ex: "utf8_text (trim (str ''  Tank 1  '')) = str ''Tank 1''"
    "utf8_text (trim [65, 55296, 66]) = [65, 65533, 66]"
    by (simp_all add: trim_def str_def is_space_def is_high_surrogate_def is_low_surrogate_def)
  have upd: "(trim s = [] \<longrightarrow> put_equipment drv now p b db = (ValidationFailed [name_invalid], db))
        \<and> (\<forall>ro. fst (put_equipment drv now p b db) = Updated ro \<longrightarrow>
             (\<exists>r'. ro = Some r' \<and> name_col r' = utf8_text (trim s)
                \<and> select_by_id (rowid p) (snd (put_equipment drv now p b db)) = Some r'))"
    if p: "\<not> blank p" "\<not> isNaN p" "select_by_id (rowid p) db \<noteq> None" and n: "name b = JStr s"
  proof -
    from p(3) obtain r where r: "select_by_id (rowid p) db = Some r" by auto
    note eq = put_equipment_existing [OF p(1,2) r, of drv now b]
    have 1: "put_equipment drv now p b db = (ValidationFailed [name_invalid], db)" if "trim s = []"
      unfolding eq put_fields_eq using n that by simp
    have 2: "\<exists>r'. ro = Some r' \<and> name_col r' = utf8_text (trim s)
        \<and> select_by_id (rowid p) (snd (put_equipment drv now p b db)) = Some r'"
      if "fst (put_equipment drv now p b db) = Updated ro" for ro
    proof (cases "put_fields b")
      case (Inl resp)
      with that put_fields_InlD [OF Inl] show ?thesis unfolding eq by auto
    next
      case (Inr ups)
      with that n show ?thesis
        unfolding eq
        by (auto simp: select_by_id_updated [OF r] updated_row_def split: if_splits)
    qed
    from 1 2 show ?thesis by blast
  qed
  show ?thesis
    using abs bad good dec trim_ends [of s] ex upd utf8_text_plain [of s] by blast
qed

text \<open>
  What the delete handler does for a path id it takes for a number, in terms of the row
  its own lookup finds: with a row, 200 with \<open>parseInt(id)\<close>, the rows of the rowid the
  engine read removed and the rest kept, and a second delete of the same path id 404;
  without one, 404 and no change.
\<close>

lemma delete_by_lookup:
  "\<not> blank p \<Longrightarrow> \<not> isNaN p \<Longrightarrow>
     (select_by_id (rowid p) db \<noteq> None \<longrightarrow>
        fst (delete_equipment p db) = Deleted (parseInt p)
        \<and> status_code (fst (delete_equipment p db)) = 200
        \<and> set (equipment_tbl (snd (delete_equipment p db)))
            = {r \<in> set (equipment_tbl db). Some (id_col r) \<noteq> rowid p}
        \<and> sqlite_sequence (snd (delete_equipment p db)) = sqlite_sequence db
        \<and> fst (delete_equipment p (snd (delete_equipment p db))) = NotFound (parseInt p)
        \<and> status_code (fst (delete_equipment p (snd (delete_equipment p db)))) = 404)
     \<and> (select_by_id (rowid p) db = None \<longrightarrow>
        delete_equipment p db = (NotFound (parseInt p), db)
        \<and> status_code (fst (delete_equipment p db)) = 404)"
proof (cases "select_by_id (rowid p) db")
  case None
  assume "\<not> blank p" "\<not> isNaN p"
  with None show ?thesis by (simp add: delete_equipment_def)
next
  case (Some r)
  assume p: "\<not> blank p" "\<not> isNaN p"
  with Some have d: "delete_equipment p db = (Deleted (parseInt p), sql_delete (rowid p) db)"
    by (simp add: delete_equipment_def)
  from p have again: "delete_equipment p (sql_delete (rowid p) db)
      = (NotFound (parseInt p), sql_delete (rowid p) db)"
    by (simp add: delete_equipment_def select_by_id_deleted)
  have rows: "set (equipment_tbl (sql_delete (rowid p) db))
      = {r \<in> set (equipment_tbl db). Some (id_col r) \<noteq> rowid p}"
    by (simp add: sql_delete_def)
  have "sqlite_sequence (sql_delete (rowid p) db) = sqlite_sequence db"
    by (simp add: sql_delete_def)
  with Some d again rows show ?thesis by simp
qed

text \<open>The definitions a concrete request is evaluated with.\<close>

lemmas eval_defs =
  post_equipment_def put_equipment_def delete_equipment_def get_equipment_def
  name_errors_def type_errors_def status_errors_def date_errors_def
  put_fields_def put_name_def put_type_def put_status_def put_date_def run_update_def
  regex_test_def date_pattern_def is_digit_def str_def trim_def is_space_def
  VALID_TYPES_def VALID_STATUSES_def
  sql_insert_def sql_update_def sql_delete_def type_check_def status_check_def
  next_rowid_def largest_rowid_def initialize_def select_by_id_def select_all_desc_def
  decimal_id_def bind_def Let_def
  js_number_exact is_high_surrogate_def is_low_surrogate_def
  created_row_def new_row_def stored_date_def

section \<open>The properties\<close>

subsection \<open>C1: create reports every failure, update the first\<close>

text \<open>
  C1. For every create request, the API collects all field validation failures (name,
  type, status, lastCleanedDate) into a single details array and responds 400 listing
  every failure; for every update request, it responds 400 reporting only the first
  invalid supplied field, checking name, then type, then status, then lastCleanedDate.

  The handlers miss one kind of invalid date. Neither checks that lastCleanedDate is a
  string before the pattern test, which converts its argument to text; for a JSON object
  with a member named toString the conversion throws, and the catch block answers 500,
  the answer kept for a database or server error. So a create with such a date and no
  name, type or status is answered 500 where three failures were to be listed with 400,
  and an update of an existing record that supplies a valid name and such a date is
  answered 500 where the date was to be reported with 400.
\<close>

theorem object_date_breaks_validation:
  "create_failures
     \<lparr>name = JUndefined, type = JUndefined, status = JUndefined,
      lastCleanedDate = JObj [(str ''toString'', JNull)]\<rparr>
     = [name_required, type_required, status_required]
   \<and> post_equipment example_driver 5
     \<lparr>name = JUndefined, type = JUndefined, status = JUndefined,
      lastCleanedDate = JObj [(str ''toString'', JNull)]\<rparr> initialize
     = (ServerError, initialize)
   \<and> status_code (fst (post_equipment example_driver 5
     \<lparr>name = JUndefined, type = JUndefined, status = JUndefined,
      lastCleanedDate = JObj [(str ''toString'', JNull)]\<rparr> initialize)) = 500
   \<and> put_equipment example_driver 9 (decimal_id 1)
     \<lparr>name = JStr (str ''Ok''), type = JUndefined, status = JUndefined,
      lastCleanedDate = JObj [(str ''toString'', JNum 1)]\<rparr>
     \<lparr>equipment_tbl =
        [\<lparr>id_col = 1, name_col = str ''Tank 1'', type_col = str ''Tank'',
          status_col = str ''Active'', lastCleanedDate_col = None,
          createdAt_col = 5, updatedAt_col = 5\<rparr>], sqlite_sequence = 1\<rparr>
     = (ServerError,
        \<lparr>equipment_tbl =
        [\<lparr>id_col = 1, name_col = str ''Tank 1'', type_col = str ''Tank'',
          status_col = str ''Active'', lastCleanedDate_col = None,
          createdAt_col = 5, updatedAt_col = 5\<rparr>], sqlite_sequence = 1\<rparr>)
   \<and> status_code (fst (put_equipment example_driver 9 (decimal_id 1)
     \<lparr>name = JStr (str ''Ok''), type = JUndefined, status = JUndefined,
      lastCleanedDate = JObj [(str ''toString'', JNum 1)]\<rparr>
     \<lparr>equipment_tbl =
        [\<lparr>id_col = 1, name_col = str ''Tank 1'', type_col = str ''Tank'',
          status_col = str ''Active'', lastCleanedDate_col = None,
          createdAt_col = 5, updatedAt_col = 5\<rparr>], sqlite_sequence = 1\<rparr>)) = 500"
proof -
  let ?c = "\<lparr>name = JUndefined, type = JUndefined, status = JUndefined,
      lastCleanedDate = JObj [(str ''toString'', JNull)]\<rparr>"
  let ?u = "\<lparr>name = JStr (str ''Ok''), type = JUndefined, status = JUndefined,
      lastCleanedDate = JObj [(str ''toString'', JNum 1)]\<rparr>"
  let ?db = "\<lparr>equipment_tbl =
        [\<lparr>id_col = 1, name_col = str ''Tank 1'', type_col = str ''Tank'',
          status_col = str ''Active'', lastCleanedDate_col = None,
          createdAt_col = 5, updatedAt_col = 5\<rparr>], sqlite_sequence = 1\<rparr>"
  have c: "create_failures ?c = [name_required, type_required, status_required]"
    "post_equipment example_driver 5 ?c initialize = (ServerError, initialize)"
    by (simp_all add: create_failures_def post_equipment_def date_errors_def regex_test_def)
  have u: "put_equipment example_driver 9 (decimal_id 1) ?u ?db = (ServerError, ?db)"
    by (simp add: eval_defs)
  from c u show ?thesis by simp
qed

subsection \<open>C2: the date check is syntactic\<close>

text \<open>
  C2 as the specification states it: every create or update request supplying
  lastCleanedDate = "2025-13-40" is rejected with 400 by the format check. It is not: the
  text matches the pattern, a create with otherwise valid fields answers 201 and an update
  of an existing record answers 200, both storing the text.
\<close>

theorem calendar_invalid_date_accepted:
  "post_equipment example_driver 5
     \<lparr>name = JStr (str ''Tank 1''), type = JStr (str ''Tank''),
      status = JStr (str ''Active''), lastCleanedDate = JStr (str ''2025-13-40'')\<rparr> initialize
   = (Created (Some \<lparr>id_col = 1, name_col = str ''Tank 1'', type_col = str ''Tank'',
         status_col = str ''Active'', lastCleanedDate_col = Some (str ''2025-13-40''),
         createdAt_col = 5, updatedAt_col = 5\<rparr>),
      \<lparr>equipment_tbl =
         [\<lparr>id_col = 1, name_col = str ''Tank 1'', type_col = str ''Tank'',
           status_col = str ''Active'', lastCleanedDate_col = Some (str ''2025-13-40''),
           createdAt_col = 5, updatedAt_col = 5\<rparr>], sqlite_sequence = 1\<rparr>)
   \<and> status_code (fst (post_equipment example_driver 5
     \<lparr>name = JStr (str ''Tank 1''), type = JStr (str ''Tank''),
      status = JStr (str ''Active''), lastCleanedDate = JStr (str ''2025-13-40'')\<rparr> initialize))
     = 201
   \<and> put_equipment example_driver 9 (decimal_id 1)
     \<lparr>name = JUndefined, type = JUndefined, status = JUndefined,
      lastCleanedDate = JStr (str ''2025-13-40'')\<rparr>
     \<lparr>equipment_tbl =
         [\<lparr>id_col = 1, name_col = str ''Tank 1'', type_col = str ''Tank'',
           status_col = str ''Active'', lastCleanedDate_col = None,
           createdAt_col = 5, updatedAt_col = 5\<rparr>], sqlite_sequence = 1\<rparr>
   = (Updated (Some \<lparr>id_col = 1, name_col = str ''Tank 1'', type_col = str ''Tank'',
         status_col = str ''Active'', lastCleanedDate_col = Some (str ''2025-13-40''),
         createdAt_col = 5, updatedAt_col = 9\<rparr>),
      \<lparr>equipment_tbl =
         [\<lparr>id_col = 1, name_col = str ''Tank 1'', type_col = str ''Tank'',
           status_col = str ''Active'', lastCleanedDate_col = Some (str ''2025-13-40''),
           createdAt_col = 5, updatedAt_col = 9\<rparr>], sqlite_sequence = 1\<rparr>)"
  by (simp add: eval_defs)

text \<open>
  C2, amended. A request supplying lastCleanedDate = "2025-13-40" passes the format check,
  on create and on update, because the check is purely syntactic: a string passes exactly
  when it is four digits, a hyphen, two digits, a hyphen and two digits, whatever month or
  day the digits spell. No response lists the date as a failure; with the other fields
  valid (and a rowid left) the create answers 201, and with the other supplied fields
  valid the update of an existing record (the path id numeric) answers 200, both storing
  the text as it is. The record the create stores is the one its response carries as long
  as the rowid is one a JavaScript number holds exactly, up to \<open>2^53\<close>.
\<close>

theorem date_check_is_syntactic:
  assumes "lastCleanedDate b = JStr (str ''2025-13-40'')"
  shows "regex_test (lastCleanedDate b) = Some True
    \<and> (regex_test (JStr s) = Some True \<longleftrightarrow>
         (\<exists>y1 y2 y3 y4 m1 m2 d1 d2.
            s = [y1, y2, y3, y4, 45, m1, m2, 45, d1, d2]
            \<and> is_digit y1 \<and> is_digit y2 \<and> is_digit y3 \<and> is_digit y4
            \<and> is_digit m1 \<and> is_digit m2 \<and> is_digit d1 \<and> is_digit d2))
    \<and> (\<forall>ds. fst (post_equipment drv now b db) = ValidationFailed ds \<longrightarrow> date_format \<notin> set ds)
    \<and> (name_ok (name b) \<and> includes_val VALID_TYPES (type b)
        \<and> includes_val VALID_STATUSES (status b) \<and> next_rowid db \<le> 9223372036854775807 \<longrightarrow>
          status_code (fst (post_equipment drv now b db)) = 201
          \<and> (\<exists>r. equipment_tbl (snd (post_equipment drv now b db)) = equipment_tbl db @ [r]
                \<and> id_col r = next_rowid db
                \<and> lastCleanedDate_col r = Some (str ''2025-13-40'')
                \<and> (next_rowid db \<le> 9007199254740992 \<longrightarrow>
                     fst (post_equipment drv now b db) = Created (Some r))))
    \<and> (\<not> blank p \<and> \<not> isNaN p \<and> select_by_id (rowid p) db \<noteq> None \<longrightarrow>
          fst (put_equipment drv now p b db) \<noteq> ValidationFailed [date_format]
          \<and> ((name b = JUndefined \<or> name_ok (name b))
              \<and> (type b = JUndefined \<or> includes_val VALID_TYPES (type b))
              \<and> (status b = JUndefined \<or> includes_val VALID_STATUSES (status b)) \<longrightarrow>
               (\<exists>r'. fst (put_equipment drv now p b db) = Updated (Some r')
                  \<and> status_code (fst (put_equipment drv now p b db)) = 200
                  \<and> lastCleanedDate_col r' = Some (str ''2025-13-40'')
                  \<and> select_by_id (rowid p) (snd (put_equipment drv now p b db)) = Some r')))"
proof -
  have rt: "regex_test (lastCleanedDate b) = Some True"
    using assms by (simp add: regex_test_2025_13_40)
  have tr: "truthy (lastCleanedDate b)"
    using assms by (simp add: str_def)
  have de: "date_errors (lastCleanedDate b) = Some []"
    using rt tr by (simp add: date_errors_def)
  have syn: "regex_test (JStr s) = Some True \<longleftrightarrow>
         (\<exists>y1 y2 y3 y4 m1 m2 d1 d2.
            s = [y1, y2, y3, y4, 45, m1, m2, 45, d1, d2]
            \<and> is_digit y1 \<and> is_digit y2 \<and> is_digit y3 \<and> is_digit y4
            \<and> is_digit m1 \<and> is_digit m2 \<and> is_digit d1 \<and> is_digit d2)"
    by (simp add: regex_test_def date_pattern_iff)
  have nolist: "date_format \<notin> set ds" if "fst (post_equipment drv now b db) = ValidationFailed ds" for ds
    using that de date_format_distinct
    by (auto simp: post_equipment_def Let_def name_errors_def type_errors_def
          status_errors_def split: if_splits option.splits sum.splits prod.splits)
  have u8: "utf8_text (str ''2025-13-40'') = str ''2025-13-40''"
    by (simp add: str_def is_high_surrogate_def is_low_surrogate_def)
  have create: "status_code (fst (post_equipment drv now b db)) = 201
          \<and> (\<exists>r. equipment_tbl (snd (post_equipment drv now b db)) = equipment_tbl db @ [r]
                \<and> id_col r = next_rowid db
                \<and> lastCleanedDate_col r = Some (str ''2025-13-40'')
                \<and> (next_rowid db \<le> 9007199254740992 \<longrightarrow>
                     fst (post_equipment drv now b db) = Created (Some r)))"
    if v: "name_ok (name b)" "includes_val VALID_TYPES (type b)"
      "includes_val VALID_STATUSES (status b)" and full: "next_rowid db \<le> 9223372036854775807"
  proof -
    note eq = post_equipment_valid [OF v de, of drv now db]
    have dt: "lastCleanedDate_col (created_row drv now b db) = Some (str ''2025-13-40'')"
      using assms tr by (simp add: created_row_def new_row_def stored_date_def bind_def u8)
    have ex: "fst (post_equipment drv now b db) = Created (Some (created_row drv now b db))"
      if "next_rowid db \<le> 9007199254740992"
      using post_equipment_exact [OF v de that, of drv now] by simp
    from full have 1: "status_code (fst (post_equipment drv now b db)) = 201"
      and 2: "equipment_tbl (snd (post_equipment drv now b db))
        = equipment_tbl db @ [created_row drv now b db]"
      unfolding eq by simp_all
    from 1 2 dt ex show ?thesis
      by (intro conjI exI [of _ "created_row drv now b db"]) simp_all
  qed
  have update: "fst (put_equipment drv now p b db) \<noteq> ValidationFailed [date_format]
          \<and> ((name b = JUndefined \<or> name_ok (name b))
              \<and> (type b = JUndefined \<or> includes_val VALID_TYPES (type b))
              \<and> (status b = JUndefined \<or> includes_val VALID_STATUSES (status b)) \<longrightarrow>
               (\<exists>r'. fst (put_equipment drv now p b db) = Updated (Some r')
                  \<and> status_code (fst (put_equipment drv now p b db)) = 200
                  \<and> lastCleanedDate_col r' = Some (str ''2025-13-40'')
                  \<and> select_by_id (rowid p) (snd (put_equipment drv now p b db)) = Some r'))"
    if p: "\<not> blank p" "\<not> isNaN p" "select_by_id (rowid p) db \<noteq> None"
  proof -
    from p(3) obtain r where r: "select_by_id (rowid p) db = Some r" by auto
    note eq = put_equipment_existing [OF p(1,2) r, of drv now b]
    have ne: "supplied_updates b \<noteq> []"
      using assms by (simp add: supplied_updates_def)
    have d: "lastCleanedDate_col (updated_row drv now b r) = Some (str ''2025-13-40'')"
      using assms by (simp add: updated_row_def bind_def u8)
    show ?thesis
      unfolding eq put_fields_eq using rt ne d date_format_distinct assms
      by (simp add: select_by_id_updated [OF r])
  qed
  show ?thesis using rt syn nolist create update by blast
qed

theorem date_check_is_syntactic_witness:
  "(\<exists>r. fst (post_equipment example_driver 5
       \<lparr>name = JStr (str ''Tank 1''), type = JStr (str ''Tank''),
        status = JStr (str ''Active''), lastCleanedDate = JStr (str ''2025-13-40'')\<rparr>
       initialize) = Created (Some r)
      \<and> lastCleanedDate_col r = Some (str ''2025-13-40''))
   \<and> (\<exists>r'. fst (put_equipment example_driver 9 (decimal_id 1)
       \<lparr>name = JUndefined, type = JUndefined, status = JUndefined,
        lastCleanedDate = JStr (str ''2025-13-40'')\<rparr>
       \<lparr>equipment_tbl =
          [\<lparr>id_col = 1, name_col = str ''Tank 1'', type_col = str ''Tank'',
            status_col = str ''Active'', lastCleanedDate_col = None,
            createdAt_col = 5, updatedAt_col = 5\<rparr>], sqlite_sequence = 1\<rparr>)
       = Updated (Some r')
      \<and> lastCleanedDate_col r' = Some (str ''2025-13-40''))"
proof -
  let ?c = "\<lparr>name = JStr (str ''Tank 1''), type = JStr (str ''Tank''),
        status = JStr (str ''Active''), lastCleanedDate = JStr (str ''2025-13-40'')\<rparr>"
  let ?u = "\<lparr>name = JUndefined, type = JUndefined, status = JUndefined,
        lastCleanedDate = JStr (str ''2025-13-40'')\<rparr>"
  let ?db = "\<lparr>equipment_tbl =
          [\<lparr>id_col = 1, name_col = str ''Tank 1'', type_col = str ''Tank'',
            status_col = str ''Active'', lastCleanedDate_col = None,
            createdAt_col = 5, updatedAt_col = 5\<rparr>], sqlite_sequence = 1\<rparr>"
  have c: "lastCleanedDate ?c = JStr (str ''2025-13-40'')" "name_ok (name ?c)"
    "includes_val VALID_TYPES (type ?c)" "includes_val VALID_STATUSES (status ?c)"
    "next_rowid initialize \<le> 9223372036854775807"
    "next_rowid initialize \<le> 9007199254740992"
    by (simp_all add: str_def trim_def is_space_def VALID_TYPES_def VALID_STATUSES_def
         next_rowid_def largest_rowid_def initialize_def)
  have u: "lastCleanedDate ?u = JStr (str ''2025-13-40'')"
    "\<not> blank (decimal_id 1) \<and> \<not> isNaN (decimal_id 1)
      \<and> select_by_id (rowid (decimal_id 1)) ?db \<noteq> None"
    "name ?u = JUndefined" "type ?u = JUndefined" "status ?u = JUndefined"
    by (simp_all add: decimal_id_def select_by_id_def)
  have "\<exists>r. fst (post_equipment example_driver 5 ?c initialize) = Created (Some r)
      \<and> lastCleanedDate_col r = Some (str ''2025-13-40'')"
    using date_check_is_syntactic [OF c(1), of "[]" example_driver 5 initialize "decimal_id 1"] c(2-6)
    by blast
  moreover have "\<exists>r'. fst (put_equipment example_driver 9 (decimal_id 1) ?u ?db) = Updated (Some r')
      \<and> lastCleanedDate_col r' = Some (str ''2025-13-40'')"
    using date_check_is_syntactic [OF u(1), of "[]" example_driver 9 ?db "decimal_id 1"] u(2-5)
    by blast
  ultimately show ?thesis by blast
qed

subsection \<open>C3: an update changes the supplied fields only\<close>

text \<open>
  C3. For every update request supplying a non-empty subset of name, type, status and
  lastCleanedDate on an existing record (the path id numeric), only the supplied fields
  change: each unsupplied field among the four keeps its previous value, id and createdAt
  are unchanged, and updatedAt is refreshed, set to the current time, on every successful
  update, which is then the row the response carries. A request without validation
  failures, whose date converts to text, is successful. The records of other ids and the
  counter are untouched.
\<close>

theorem update_changes_only_supplied_fields:
  assumes "\<not> blank p" and "\<not> isNaN p" and "select_by_id (rowid p) db = Some r"
    and "name b \<noteq> JUndefined \<or> type b \<noteq> JUndefined \<or> status b \<noteq> JUndefined
         \<or> lastCleanedDate b \<noteq> JUndefined"
  shows "\<exists>r'. select_by_id (rowid p) (snd (put_equipment drv now p b db)) = Some r'
     \<and> id_col r' = id_col r
     \<and> (name b = JUndefined \<longrightarrow> name_col r' = name_col r)
     \<and> (type b = JUndefined \<longrightarrow> type_col r' = type_col r)
     \<and> (status b = JUndefined \<longrightarrow> status_col r' = status_col r)
     \<and> (lastCleanedDate b = JUndefined \<longrightarrow> lastCleanedDate_col r' = lastCleanedDate_col r)
     \<and> createdAt_col r' = createdAt_col r
     \<and> (\<forall>ro. fst (put_equipment drv now p b db) = Updated ro \<longrightarrow>
            ro = Some r' \<and> updatedAt_col r' = now)
     \<and> (update_failures b = [] \<and> ToString (lastCleanedDate b) \<noteq> None \<longrightarrow>
            fst (put_equipment drv now p b db) = Updated (Some r'))
     \<and> filter (\<lambda>x. Some (id_col x) \<noteq> rowid p) (equipment_tbl (snd (put_equipment drv now p b db)))
         = filter (\<lambda>x. Some (id_col x) \<noteq> rowid p) (equipment_tbl db)
     \<and> sqlite_sequence (snd (put_equipment drv now p b db)) = sqlite_sequence db"
proof (cases "put_fields b")
  case (Inl resp)
  with assms have eq: "put_equipment drv now p b db = (resp, db)"
    by (simp add: put_equipment_existing)
  from put_fields_InlD [OF Inl] have no: "resp \<noteq> Updated ro" for ro by auto
  have "\<not> (update_failures b = [] \<and> ToString (lastCleanedDate b) \<noteq> None)"
    using Inl unfolding put_fields_eq
    by (auto simp: update_failures_def regex_test_def split: if_splits)
  with assms(3) no show ?thesis
    unfolding eq by simp
next
  case (Inr ups)
  note v = put_fields_InrD [OF Inr]
  from assms(4) v(2) have "supplied_updates b \<noteq> []"
    using supplied_updates_Nil by blast
  with assms Inr v(1) have eq: "put_equipment drv now p b db =
      (Updated (Some (updated_row drv now b r)),
       db\<lparr>equipment_tbl :=
            map (\<lambda>x. if Some (id_col x) = rowid p then updated_row drv now b x else x)
              (equipment_tbl db)\<rparr>)"
    by (simp add: put_equipment_existing)
  have frame: "name b = JUndefined \<longrightarrow> name_col (updated_row drv now b r) = name_col r"
    "type b = JUndefined \<longrightarrow> type_col (updated_row drv now b r) = type_col r"
    "status b = JUndefined \<longrightarrow> status_col (updated_row drv now b r) = status_col r"
    "lastCleanedDate b = JUndefined \<longrightarrow>
       lastCleanedDate_col (updated_row drv now b r) = lastCleanedDate_col r"
    "createdAt_col (updated_row drv now b r) = createdAt_col r"
    "updatedAt_col (updated_row drv now b r) = now"
    by (simp_all add: updated_row_def)
  show ?thesis
    unfolding eq using frame
    by (simp add: select_by_id_updated [OF assms(3)] filter_others_updated)
qed

theorem update_changes_only_supplied_fields_witness:
  "\<exists>r'. put_equipment example_driver 99 (decimal_id 1)
          \<lparr>name = JUndefined, type = JUndefined,
           status = JStr (str ''Under Maintenance''), lastCleanedDate = JUndefined\<rparr>
          \<lparr>equipment_tbl =
             [\<lparr>id_col = 1, name_col = str ''Tank 1'', type_col = str ''Tank'',
               status_col = str ''Active'', lastCleanedDate_col = Some (str ''2025-12-15''),
               createdAt_col = 5, updatedAt_col = 5\<rparr>], sqlite_sequence = 1\<rparr>
        = (Updated (Some r'), \<lparr>equipment_tbl = [r'], sqlite_sequence = 1\<rparr>)
      \<and> id_col r' = 1 \<and> name_col r' = str ''Tank 1'' \<and> type_col r' = str ''Tank''
      \<and> status_col r' = str ''Under Maintenance''
      \<and> lastCleanedDate_col r' = Some (str ''2025-12-15'')
      \<and> createdAt_col r' = 5 \<and> updatedAt_col r' = 99"
proof -
  let ?r = "\<lparr>id_col = 1, name_col = str ''Tank 1'', type_col = str ''Tank'',
               status_col = str ''Active'', lastCleanedDate_col = Some (str ''2025-12-15''),
               createdAt_col = 5, updatedAt_col = 5\<rparr>"
  let ?db = "\<lparr>equipment_tbl = [?r], sqlite_sequence = 1\<rparr>"
  let ?b = "\<lparr>name = JUndefined, type = JUndefined,
           status = JStr (str ''Under Maintenance''), lastCleanedDate = JUndefined\<rparr>"
  have p: "\<not> blank (decimal_id 1)" "\<not> isNaN (decimal_id 1)"
    "select_by_id (rowid (decimal_id 1)) ?db = Some ?r"
    by (simp_all add: decimal_id_def select_by_id_def)
  have b: "name ?b \<noteq> JUndefined \<or> type ?b \<noteq> JUndefined \<or> status ?b \<noteq> JUndefined
         \<or> lastCleanedDate ?b \<noteq> JUndefined"
    by simp
  have ok: "update_failures ?b = [] \<and> ToString (lastCleanedDate ?b) \<noteq> None"
    by (simp add: update_failures_def VALID_STATUSES_def str_def)
  from update_changes_only_supplied_fields [OF p b, of example_driver 99] ok obtain r' where
    r': "fst (put_equipment example_driver 99 (decimal_id 1) ?b ?db) = Updated (Some r')"
      "id_col r' = 1" "name_col r' = str ''Tank 1''" "type_col r' = str ''Tank''"
      "lastCleanedDate_col r' = Some (str ''2025-12-15'')"
      "createdAt_col r' = 5" "updatedAt_col r' = 99"
    by auto
  have e: "put_equipment example_driver 99 (decimal_id 1) ?b ?db =
      (Updated (Some (?r\<lparr>status_col := str ''Under Maintenance'', updatedAt_col := 99\<rparr>)),
       \<lparr>equipment_tbl = [?r\<lparr>status_col := str ''Under Maintenance'', updatedAt_col := 99\<rparr>],
        sqlite_sequence = 1\<rparr>)"
    by (simp add: eval_defs)
  from r'(1) e have "r' = ?r\<lparr>status_col := str ''Under Maintenance'', updatedAt_col := 99\<rparr>"
    by simp
  with e r' show ?thesis by simp
qed

subsection \<open>C4: the list is newest first\<close>

text \<open>
  C4. In every store state, the list operation answers 200 with all stored records
  ordered by id descending (newest first); in particular, after creating records A, B, C
  in that order, the list returns C, B, A, ahead of the records that were there before:
  \<open>ra\<close>, \<open>rb\<close> and \<open>rc\<close> are the records the three creates stored, and they are the
  records the three responses carry as long as their rowids are ones a JavaScript number
  holds exactly, up to \<open>2^53\<close>.
\<close>

theorem list_newest_first:
  "fst (get_equipment db) = Listed (select_all_desc db)
   \<and> status_code (fst (get_equipment db)) = 200
   \<and> mset (select_all_desc db) = mset (equipment_tbl db)
   \<and> sorted_wrt (\<lambda>x y. id_col x \<ge> id_col y) (select_all_desc db)
   \<and> (serve drv db [(t1, Post A), (t2, Post B), (t3, Post C), (t4, GetAll)]
        = [Created a', Created b', Created c', l]
      \<longrightarrow> (\<exists>ra rb rc.
             equipment_tbl (snd (post_equipment drv t1 A db)) = equipment_tbl db @ [ra]
           \<and> equipment_tbl (snd (post_equipment drv t2 B (snd (post_equipment drv t1 A db))))
               = equipment_tbl db @ [ra, rb]
           \<and> equipment_tbl (snd (post_equipment drv t3 C
                 (snd (post_equipment drv t2 B (snd (post_equipment drv t1 A db))))))
               = equipment_tbl db @ [ra, rb, rc]
           \<and> l = Listed (rc # rb # ra # select_all_desc db)
           \<and> (id_col rc \<le> 9007199254740992 \<longrightarrow> a' = Some ra \<and> b' = Some rb \<and> c' = Some rc)))
   \<and> (serve drv db [(t1, Post A), (t2, Post B), (t3, Post C), (t4, GetAll)]
        = [Created (Some a), Created (Some b), Created (Some c), l]
      \<and> next_rowid db + 2 \<le> 9007199254740992
      \<longrightarrow> l = Listed (c # b # a # select_all_desc db))"
proof -
  have "sorted (map id_col (sort_key id_col (equipment_tbl db)))"
    by (rule sorted_sort_key)
  then have "sorted_wrt (\<lambda>x y. id_col x \<le> id_col y) (sort_key id_col (equipment_tbl db))"
    by (simp add: sorted_wrt_map)
  then have desc: "sorted_wrt (\<lambda>x y. id_col x \<ge> id_col y) (select_all_desc db)"
    by (simp add: select_all_desc_def sorted_wrt_rev)
  have all: "mset (select_all_desc db) = mset (equipment_tbl db)"
    by (simp add: select_all_desc_def)
  have abc: "\<exists>ra rb rc.
             equipment_tbl (snd (post_equipment drv t1 A db)) = equipment_tbl db @ [ra]
           \<and> equipment_tbl (snd (post_equipment drv t2 B (snd (post_equipment drv t1 A db))))
               = equipment_tbl db @ [ra, rb]
           \<and> equipment_tbl (snd (post_equipment drv t3 C
                 (snd (post_equipment drv t2 B (snd (post_equipment drv t1 A db))))))
               = equipment_tbl db @ [ra, rb, rc]
           \<and> l = Listed (rc # rb # ra # select_all_desc db)
           \<and> id_col rc = next_rowid db + 2
           \<and> (id_col rc \<le> 9007199254740992 \<longrightarrow> a' = Some ra \<and> b' = Some rb \<and> c' = Some rc)"
    if served: "serve drv db [(t1, Post A), (t2, Post B), (t3, Post C), (t4, GetAll)]
        = [Created a', Created b', Created c', l]" for a' b' c' l
  proof -
    let ?d1 = "snd (post_equipment drv t1 A db)"
    let ?d2 = "snd (post_equipment drv t2 B ?d1)"
    let ?d3 = "snd (post_equipment drv t3 C ?d2)"
    let ?ra = "created_row drv t1 A db"
    let ?rb = "created_row drv t2 B ?d1"
    let ?rc = "created_row drv t3 C ?d2"
    from served have a: "fst (post_equipment drv t1 A db) = Created a'"
      and b: "fst (post_equipment drv t2 B ?d1) = Created b'"
      and c: "fst (post_equipment drv t3 C ?d2) = Created c'"
      and l: "l = Listed (select_all_desc ?d3)"
      by (simp_all add: get_equipment_def)
    note da = post_equipment_CreatedD [OF a]
    note db = post_equipment_CreatedD [OF b]
    note dc = post_equipment_CreatedD [OF c]
    from da have d1: "?d1 = \<lparr>equipment_tbl = equipment_tbl db @ [?ra],
        sqlite_sequence = next_rowid db\<rparr>" by simp
    from db have d2: "?d2 = \<lparr>equipment_tbl = equipment_tbl ?d1 @ [?rb],
        sqlite_sequence = next_rowid ?d1\<rparr>" by simp
    from dc have d3: "?d3 = \<lparr>equipment_tbl = equipment_tbl ?d2 @ [?rc],
        sqlite_sequence = next_rowid ?d2\<rparr>" by simp
    have t1: "equipment_tbl ?d1 = equipment_tbl db @ [?ra]"
      by (subst d1) simp
    have t2: "equipment_tbl ?d2 = equipment_tbl db @ [?ra, ?rb]"
      by (subst d2) (simp add: t1)
    have t3: "equipment_tbl ?d3 = equipment_tbl db @ [?ra, ?rb, ?rc]"
      by (subst d3) (simp add: t2)
    have n1: "next_rowid ?d1 = next_rowid db + 1"
      by (subst d1) (simp add: next_rowid_created)
    have "next_rowid ?d2 = next_rowid ?d1 + 1"
      by (subst d2) (simp add: next_rowid_created)
    with n1 have n2: "next_rowid ?d2 = next_rowid db + 2" by simp
    have order: "l = Listed (?rc # ?rb # ?ra # select_all_desc db)"
      unfolding l select_all_desc_created [OF c] select_all_desc_created [OF b]
        select_all_desc_created [OF a] by simp
    have exact: "a' = Some ?ra \<and> b' = Some ?rb \<and> c' = Some ?rc"
      if "id_col ?rc \<le> 9007199254740992"
    proof -
      from that n2 n1 have le: "next_rowid db \<le> 9007199254740992"
        "next_rowid ?d1 \<le> 9007199254740992" "next_rowid ?d2 \<le> 9007199254740992"
        by simp_all
      from a post_equipment_exact [OF _ _ _ _ le(1), of A drv t1] da
      have "a' = Some ?ra" by simp
      moreover from b post_equipment_exact [OF _ _ _ _ le(2), of B drv t2] db
      have "b' = Some ?rb" by simp
      moreover from c post_equipment_exact [OF _ _ _ _ le(3), of C drv t3] dc
      have "c' = Some ?rc" by simp
      ultimately show ?thesis by simp
    qed
    from t1 t2 t3 order exact n2 show ?thesis
      by (intro exI [of _ ?ra] exI [of _ ?rb] exI [of _ ?rc]) simp
  qed
  have old: "l = Listed (c # b # a # select_all_desc db)"
    if served: "serve drv db [(t1, Post A), (t2, Post B), (t3, Post C), (t4, GetAll)]
        = [Created (Some a), Created (Some b), Created (Some c), l]"
      and le: "next_rowid db + 2 \<le> 9007199254740992"
    using abc [OF served] le by auto
  have new: "\<exists>ra rb rc.
             equipment_tbl (snd (post_equipment drv t1 A db)) = equipment_tbl db @ [ra]
           \<and> equipment_tbl (snd (post_equipment drv t2 B (snd (post_equipment drv t1 A db))))
               = equipment_tbl db @ [ra, rb]
           \<and> equipment_tbl (snd (post_equipment drv t3 C
                 (snd (post_equipment drv t2 B (snd (post_equipment drv t1 A db))))))
               = equipment_tbl db @ [ra, rb, rc]
           \<and> l = Listed (rc # rb # ra # select_all_desc db)
           \<and> (id_col rc \<le> 9007199254740992 \<longrightarrow> a' = Some ra \<and> b' = Some rb \<and> c' = Some rc)"
    if served: "serve drv db [(t1, Post A), (t2, Post B), (t3, Post C), (t4, GetAll)]
        = [Created a', Created b', Created c', l]"
    using abc [OF served] by blast
  show ?thesis
    using desc all new old by (simp add: get_equipment_def)
qed

theorem list_newest_first_witness:
  "serve example_driver initialize
     [(1, Post \<lparr>name = JStr (str ''A''), type = JStr (str ''Tank''),
                status = JStr (str ''Active''), lastCleanedDate = JUndefined\<rparr>),
      (2, Post \<lparr>name = JStr (str ''B''), type = JStr (str ''Mixer''),
                status = JStr (str ''Inactive''), lastCleanedDate = JNull\<rparr>),
      (3, Post \<lparr>name = JStr (str ''C''), type = JStr (str ''Vessel''),
                status = JStr (str ''Under Maintenance''),
                lastCleanedDate = JStr (str ''2025-12-15'')\<rparr>),
      (4, GetAll)] ! 3
   = Listed
      [\<lparr>id_col = 3, name_col = str ''C'', type_col = str ''Vessel'',
        status_col = str ''Under Maintenance'', lastCleanedDate_col = Some (str ''2025-12-15''),
        createdAt_col = 3, updatedAt_col = 3\<rparr>,
       \<lparr>id_col = 2, name_col = str ''B'', type_col = str ''Mixer'',
        status_col = str ''Inactive'', lastCleanedDate_col = None,
        createdAt_col = 2, updatedAt_col = 2\<rparr>,
       \<lparr>id_col = 1, name_col = str ''A'', type_col = str ''Tank'',
        status_col = str ''Active'', lastCleanedDate_col = None,
        createdAt_col = 1, updatedAt_col = 1\<rparr>]"
proof -
  let ?A = "\<lparr>name = JStr (str ''A''), type = JStr (str ''Tank''),
                status = JStr (str ''Active''), lastCleanedDate = JUndefined\<rparr>"
  let ?B = "\<lparr>name = JStr (str ''B''), type = JStr (str ''Mixer''),
                status = JStr (str ''Inactive''), lastCleanedDate = JNull\<rparr>"
  let ?C = "\<lparr>name = JStr (str ''C''), type = JStr (str ''Vessel''),
                status = JStr (str ''Under Maintenance''),
                lastCleanedDate = JStr (str ''2025-12-15'')\<rparr>"
  let ?a = "\<lparr>id_col = 1, name_col = str ''A'', type_col = str ''Tank'',
        status_col = str ''Active'', lastCleanedDate_col = None,
        createdAt_col = 1, updatedAt_col = 1\<rparr>"
  let ?b = "\<lparr>id_col = 2, name_col = str ''B'', type_col = str ''Mixer'',
        status_col = str ''Inactive'', lastCleanedDate_col = None,
        createdAt_col = 2, updatedAt_col = 2\<rparr>"
  let ?c = "\<lparr>id_col = 3, name_col = str ''C'', type_col = str ''Vessel'',
        status_col = str ''Under Maintenance'', lastCleanedDate_col = Some (str ''2025-12-15''),
        createdAt_col = 3, updatedAt_col = 3\<rparr>"
  let ?rqs = "[(1, Post ?A), (2, Post ?B), (3, Post ?C), (4, GetAll)]"
  have r: "serve example_driver initialize ?rqs
      = [Created (Some ?a), Created (Some ?b), Created (Some ?c), serve example_driver initialize ?rqs ! 3]"
    by (simp add: eval_defs)
  have e: "select_all_desc initialize = []"
    by (simp add: select_all_desc_def initialize_def)
  have n: "next_rowid initialize + 2 \<le> 9007199254740992"
    by (simp add: next_rowid_def largest_rowid_def initialize_def)
  from list_newest_first [where drv = example_driver and db = initialize and ?t1.0 = 1 and A = ?A and ?t2.0 = 2
      and B = ?B and ?t3.0 = 3 and C = ?C and ?t4.0 = 4 and a = ?a and b = ?b and c = ?c
      and l = "serve example_driver initialize ?rqs ! 3"] r n
  have "serve example_driver initialize ?rqs ! 3 = Listed (?c # ?b # ?a # select_all_desc initialize)"
    by blast
  then show ?thesis
    unfolding e by simp
qed

subsection \<open>C5: identities only grow\<close>

text \<open>
  C5 as the specification states it: for every sequence of operations, each successful
  create returns a record whose id is strictly greater than the id of every record created
  earlier in the sequence. The handler fetches the record it returns by \<open>result.id\<close>, a
  JavaScript number, and beyond \<open>2^53\<close> a number no longer tells neighbouring rowids
  apart. On a store whose counter stands at \<open>2^53 - 1\<close>, a first create inserts rowid
  \<open>2^53\<close> and returns that record; a second create inserts rowid \<open>2^53 + 1\<close>, the
  number made of it is \<open>2^53\<close>, and the response carries the first record again: the
  same id, not a greater one.
\<close>

theorem ids_repeat_above_2_53:
  "serve example_driver \<lparr>equipment_tbl = [], sqlite_sequence = 9007199254740991\<rparr>
     [(10, Post \<lparr>name = JStr (str ''A''), type = JStr (str ''Tank''),
                 status = JStr (str ''Active''), lastCleanedDate = JUndefined\<rparr>),
      (20, Post \<lparr>name = JStr (str ''B''), type = JStr (str ''Mixer''),
                 status = JStr (str ''Inactive''), lastCleanedDate = JNull\<rparr>)]
   = [Created (Some \<lparr>id_col = 9007199254740992, name_col = str ''A'', type_col = str ''Tank'',
                      status_col = str ''Active'', lastCleanedDate_col = None,
                      createdAt_col = 10, updatedAt_col = 10\<rparr>),
      Created (Some \<lparr>id_col = 9007199254740992, name_col = str ''A'', type_col = str ''Tank'',
                      status_col = str ''Active'', lastCleanedDate_col = None,
                      createdAt_col = 10, updatedAt_col = 10\<rparr>)]
   \<and> \<not> id_col \<lparr>id_col = 9007199254740992, name_col = str ''A'', type_col = str ''Tank'',
                      status_col = str ''Active'', lastCleanedDate_col = None,
                      createdAt_col = 10, updatedAt_col = 10\<rparr>
       < id_col \<lparr>id_col = 9007199254740992, name_col = str ''A'', type_col = str ''Tank'',
                      status_col = str ''Active'', lastCleanedDate_col = None,
                      createdAt_col = 10, updatedAt_col = 10\<rparr>"
  by (simp add: eval_defs js_number_tie)

text \<open>
  C5, amended. For every sequence of operations, each successful create that returns a
  record with an id below \<open>2^53\<close> returns a record whose id is strictly greater than the
  id of every record created earlier in the sequence, including records that have since
  been deleted. The sequence may start in any state of the store; \<open>c\<close> is the record a
  create of the sequence returns and \<open>ao\<close> what an earlier create returned, whatever was
  served in between: that earlier create returned its record, with a smaller id.
\<close>

theorem create_ids_increase:
  "i < j \<Longrightarrow> j < length rqs \<Longrightarrow> serve drv db rqs ! i = Created ao
     \<Longrightarrow> serve drv db rqs ! j = Created (Some c) \<Longrightarrow> id_col c < 9007199254740992
     \<Longrightarrow> \<exists>a. ao = Some a \<and> id_col a < id_col c"
proof (induction rqs arbitrary: db i j)
  case Nil
  then show ?case by simp
next
  case (Cons x rqs)
  obtain now rq where x: "x = (now, rq)" by (cases x)
  from Cons.prems obtain j' where j: "j = Suc j'" by (cases j) auto
  show ?case
  proof (cases i)
    case 0
    let ?db = "snd (handle drv now rq db)"
    from 0 Cons.prems x have first: "fst (handle drv now rq db) = Created ao" by simp
    from Cons.prems x j obtain k where k: "sqlite_sequence ?db < k" "id_col c = js_number k"
      using serve_later_create [of j' rqs drv ?db c] by auto
    have "k < 9007199254740992"
    proof (rule ccontr)
      assume "\<not> k < 9007199254740992"
      then have "9007199254740992 \<le> js_number k" by (simp add: js_number_large)
      with k(2) Cons.prems(5) show False by simp
    qed
    with k have c: "id_col c = k" by (simp add: js_number_exact)
    with k(1) Cons.prems(5) have "sqlite_sequence ?db \<le> 9007199254740992" by simp
    with handle_CreatedD [OF first] obtain a where "ao = Some a" "id_col a = sqlite_sequence ?db"
      by blast
    with k(1) c show ?thesis by simp
  next
    case (Suc i')
    with Cons.prems x j show ?thesis
      using Cons.IH [of i' j' "snd (handle drv now rq db)"] by simp
  qed
qed

theorem create_ids_increase_witness:
  "serve example_driver initialize
     [(10, Post \<lparr>name = JStr (str ''A''), type = JStr (str ''Tank''),
                 status = JStr (str ''Active''), lastCleanedDate = JUndefined\<rparr>),
      (20, Delete (decimal_id 1)),
      (30, Post \<lparr>name = JStr (str ''B''), type = JStr (str ''Mixer''),
                 status = JStr (str ''Inactive''), lastCleanedDate = JNull\<rparr>)]
   = [Created (Some \<lparr>id_col = 1, name_col = str ''A'', type_col = str ''Tank'',
                      status_col = str ''Active'', lastCleanedDate_col = None,
                      createdAt_col = 10, updatedAt_col = 10\<rparr>),
      Deleted (Some 1),
      Created (Some \<lparr>id_col = 2, name_col = str ''B'', type_col = str ''Mixer'',
                      status_col = str ''Inactive'', lastCleanedDate_col = None,
                      createdAt_col = 30, updatedAt_col = 30\<rparr>)]
   \<and> id_col \<lparr>id_col = 1, name_col = str ''A'', type_col = str ''Tank'',
                      status_col = str ''Active'', lastCleanedDate_col = None,
                      createdAt_col = 10, updatedAt_col = 10\<rparr>
     < id_col \<lparr>id_col = 2, name_col = str ''B'', type_col = str ''Mixer'',
                      status_col = str ''Inactive'', lastCleanedDate_col = None,
                      createdAt_col = 30, updatedAt_col = 30\<rparr>"
proof -
  let ?rqs = "[(10, Post \<lparr>name = JStr (str ''A''), type = JStr (str ''Tank''),
                 status = JStr (str ''Active''), lastCleanedDate = JUndefined\<rparr>),
      (20, Delete (decimal_id 1)),
      (30, Post \<lparr>name = JStr (str ''B''), type = JStr (str ''Mixer''),
                 status = JStr (str ''Inactive''), lastCleanedDate = JNull\<rparr>)]"
  let ?a = "\<lparr>id_col = 1, name_col = str ''A'', type_col = str ''Tank'',
                      status_col = str ''Active'', lastCleanedDate_col = None,
                      createdAt_col = 10, updatedAt_col = 10\<rparr>"
  let ?c = "\<lparr>id_col = 2, name_col = str ''B'', type_col = str ''Mixer'',
                      status_col = str ''Inactive'', lastCleanedDate_col = None,
                      createdAt_col = 30, updatedAt_col = 30\<rparr>"
  have r: "serve example_driver initialize ?rqs = [Created (Some ?a), Deleted (Some 1), Created (Some ?c)]"
    by (simp add: eval_defs)
  have h0: "serve example_driver initialize ?rqs ! 0 = Created (Some ?a)"
    unfolding r by simp
  have h2: "serve example_driver initialize ?rqs ! 2 = Created (Some ?c)"
    unfolding r by simp
  have "\<exists>a. Some ?a = Some a \<and> id_col a < id_col ?c"
    by (rule create_ids_increase [OF _ _ h0 h2]) simp_all
  then have "id_col ?a < id_col ?c" by simp
  with r show ?thesis by simp
qed

subsection \<open>C6: type and status stay within their enumerations\<close>

text \<open>
  C6. In every reachable store state, every record's type is a member of Machine, Vessel,
  Tank, Mixer and every record's status is a member of Active, Inactive, Under
  Maintenance, enforced by storage-layer CHECK constraints in addition to API validation;
  in particular, creating with type = "Pump" yields 400 with a details entry naming type.

  The invariant holds; the example does not hold for every create. The handler does not
  check that lastCleanedDate is a string before the pattern test, which converts its
  argument to text; for an array holding a JSON object with a member named toString the
  conversion throws, and the catch block answers 500. A create with type "Pump" and such
  a date is answered 500 where type was to be named with 400.
\<close>

theorem pump_with_object_date_is_500:
  "\<not> includes_val VALID_TYPES (JStr (str ''Pump''))
   \<and> post_equipment example_driver 5
     \<lparr>name = JStr (str ''Pump 1''), type = JStr (str ''Pump''), status = JStr (str ''Active''),
      lastCleanedDate = JArr [JObj [(str ''toString'', JNum 0)]]\<rparr> initialize
     = (ServerError, initialize)
   \<and> status_code (fst (post_equipment example_driver 5
     \<lparr>name = JStr (str ''Pump 1''), type = JStr (str ''Pump''), status = JStr (str ''Active''),
      lastCleanedDate = JArr [JObj [(str ''toString'', JNum 0)]]\<rparr> initialize)) = 500"
  by (simp add: post_equipment_def date_errors_def regex_test_def)
     (simp add: VALID_TYPES_def str_def)

subsection \<open>C7: the name is required and stored trimmed\<close>

text \<open>
  C7. For every create request: if name is absent, not a string, or empty after trimming,
  the response is 400 with a details entry naming name; otherwise the stored record's
  name equals the request's name with leading and trailing whitespace removed, and the
  same trimming is applied when update supplies name.

  The 400 is not given for every create with a failing name. The handler does not check
  that lastCleanedDate is a string before the pattern test, which converts its argument
  to text; for a JSON object with a member named toString the conversion throws, and the
  catch block answers 500. A create whose name is blank and whose date is such an object
  is answered 500 where name was to be named with 400.
\<close>

theorem blank_name_with_object_date_is_500:
  "\<not> name_ok (JStr (str ''   ''))
   \<and> post_equipment example_driver 5
     \<lparr>name = JStr (str ''   ''), type = JStr (str ''Tank''), status = JStr (str ''Active''),
      lastCleanedDate = JObj [(str ''toString'', JBool True)]\<rparr> initialize
     = (ServerError, initialize)
   \<and> status_code (fst (post_equipment example_driver 5
     \<lparr>name = JStr (str ''   ''), type = JStr (str ''Tank''), status = JStr (str ''Active''),
      lastCleanedDate = JObj [(str ''toString'', JBool True)]\<rparr> initialize)) = 500"
  by (simp add: post_equipment_def date_errors_def regex_test_def)
     (simp add: str_def trim_def is_space_def)

subsection \<open>C8: deleting by a numeric path id\<close>

text \<open>
  C8. For every delete request with a numeric path id: if a record with that id exists,
  it is removed and the response is 200 echoing the parsed id; if no such record exists,
  the response is 404; hence deleting the same id twice in succession yields 200 then
  404.

  The handler reads the path id in three ways that do not agree: \<open>isNaN\<close> decides
  whether it is numeric, the engine compares its text with the rowids, and \<open>parseInt\<close>
  gives the id of the response. For the path id \<open>0x1\<close>, which is the number 1, the
  record with id 1 exists, yet the answer is 404 "not found" for id 1 and the record
  stays. For the path id \<open>1e3\<close>, the record with id 1000 is removed and the response
  reports id 1, whose record is still there.
\<close>

theorem path_id_read_three_ways:
  "select_by_id (Some 1)
     \<lparr>equipment_tbl =
        [\<lparr>id_col = 1, name_col = str ''Tank 1'', type_col = str ''Tank'',
          status_col = str ''Active'', lastCleanedDate_col = None,
          createdAt_col = 5, updatedAt_col = 5\<rparr>], sqlite_sequence = 1\<rparr>
     = Some \<lparr>id_col = 1, name_col = str ''Tank 1'', type_col = str ''Tank'',
          status_col = str ''Active'', lastCleanedDate_col = None,
          createdAt_col = 5, updatedAt_col = 5\<rparr>
   \<and> delete_equipment path_0x1
     \<lparr>equipment_tbl =
        [\<lparr>id_col = 1, name_col = str ''Tank 1'', type_col = str ''Tank'',
          status_col = str ''Active'', lastCleanedDate_col = None,
          createdAt_col = 5, updatedAt_col = 5\<rparr>], sqlite_sequence = 1\<rparr>
     = (NotFound (Some 1),
        \<lparr>equipment_tbl =
        [\<lparr>id_col = 1, name_col = str ''Tank 1'', type_col = str ''Tank'',
          status_col = str ''Active'', lastCleanedDate_col = None,
          createdAt_col = 5, updatedAt_col = 5\<rparr>], sqlite_sequence = 1\<rparr>)
   \<and> status_code (fst (delete_equipment path_0x1
     \<lparr>equipment_tbl =
        [\<lparr>id_col = 1, name_col = str ''Tank 1'', type_col = str ''Tank'',
          status_col = str ''Active'', lastCleanedDate_col = None,
          createdAt_col = 5, updatedAt_col = 5\<rparr>], sqlite_sequence = 1\<rparr>)) = 404
   \<and> delete_equipment path_1e3
     \<lparr>equipment_tbl =
        [\<lparr>id_col = 1, name_col = str ''Tank 1'', type_col = str ''Tank'',
          status_col = str ''Active'', lastCleanedDate_col = None,
          createdAt_col = 5, updatedAt_col = 5\<rparr>,
         \<lparr>id_col = 1000, name_col = str ''Mixer 9'', type_col = str ''Mixer'',
          status_col = str ''Inactive'', lastCleanedDate_col = None,
          createdAt_col = 7, updatedAt_col = 7\<rparr>], sqlite_sequence = 1000\<rparr>
     = (Deleted (Some 1),
        \<lparr>equipment_tbl =
        [\<lparr>id_col = 1, name_col = str ''Tank 1'', type_col = str ''Tank'',
          status_col = str ''Active'', lastCleanedDate_col = None,
          createdAt_col = 5, updatedAt_col = 5\<rparr>], sqlite_sequence = 1000\<rparr>)"
  by (simp add: delete_equipment_def select_by_id_def sql_delete_def path_0x1_def path_1e3_def)

subsection \<open>C9: the empty date on create and on update\<close>

text \<open>
  C9. Create and update treat an empty-string lastCleanedDate differently. On create, any
  falsy lastCleanedDate (absent, null, or the empty string) bypasses the format check
  entirely: the check reports nothing and cannot throw, no response lists the date, and a
  created record stores NULL (the record the response carries, as long as the rowid is one
  a JavaScript number holds exactly, up to \<open>2^53\<close>). On update of an existing record (the path id numeric),
  supplying the empty string yields 400 and changes nothing, and when the earlier fields
  are absent or valid the date failure is reported exactly for a supplied value other than
  null that fails the pattern: only absent or explicit null bypasses the regex there.
\<close>

theorem empty_date_create_versus_update:
  "(\<not> truthy JUndefined \<and> \<not> truthy JNull \<and> \<not> truthy (JStr []))
   \<and> (\<not> truthy (lastCleanedDate b) \<longrightarrow>
        date_errors (lastCleanedDate b) = Some []
        \<and> (\<forall>ds. fst (post_equipment drv now b db) = ValidationFailed ds \<longrightarrow> date_format \<notin> set ds)
        \<and> (\<forall>ro. fst (post_equipment drv now b db) = Created ro \<longrightarrow>
              (\<exists>r. equipment_tbl (snd (post_equipment drv now b db)) = equipment_tbl db @ [r]
                   \<and> lastCleanedDate_col r = None
                   \<and> (next_rowid db \<le> 9007199254740992 \<longrightarrow> ro = Some r)))
        \<and> (name_ok (name b) \<and> includes_val VALID_TYPES (type b)
            \<and> includes_val VALID_STATUSES (status b) \<and> next_rowid db \<le> 9223372036854775807
            \<longrightarrow> status_code (fst (post_equipment drv now b db)) = 201))
   \<and> (\<not> blank p \<and> \<not> isNaN p \<and> select_by_id (rowid p) db \<noteq> None \<longrightarrow>
        (lastCleanedDate b = JStr [] \<longrightarrow>
           status_code (fst (put_equipment drv now p b db)) = 400
           \<and> snd (put_equipment drv now p b db) = db)
        \<and> ((name b = JUndefined \<or> name_ok (name b))
            \<and> (type b = JUndefined \<or> includes_val VALID_TYPES (type b))
            \<and> (status b = JUndefined \<or> includes_val VALID_STATUSES (status b)) \<longrightarrow>
             (fst (put_equipment drv now p b db) = ValidationFailed [date_format] \<longleftrightarrow>
                lastCleanedDate b \<noteq> JUndefined \<and> lastCleanedDate b \<noteq> JNull
                \<and> regex_test (lastCleanedDate b) = Some False)))"
proof -
  have create: "date_errors (lastCleanedDate b) = Some []
        \<and> (\<forall>ds. fst (post_equipment drv now b db) = ValidationFailed ds \<longrightarrow> date_format \<notin> set ds)
        \<and> (\<forall>ro. fst (post_equipment drv now b db) = Created ro \<longrightarrow>
              (\<exists>r. equipment_tbl (snd (post_equipment drv now b db)) = equipment_tbl db @ [r]
                   \<and> lastCleanedDate_col r = None
                   \<and> (next_rowid db \<le> 9007199254740992 \<longrightarrow> ro = Some r)))
        \<and> (name_ok (name b) \<and> includes_val VALID_TYPES (type b)
            \<and> includes_val VALID_STATUSES (status b) \<and> next_rowid db \<le> 9223372036854775807
            \<longrightarrow> status_code (fst (post_equipment drv now b db)) = 201)"
    if falsy: "\<not> truthy (lastCleanedDate b)"
  proof -
    from falsy have de: "date_errors (lastCleanedDate b) = Some []"
      by (simp add: date_errors_def)
    have "date_format \<notin> set ds" if "fst (post_equipment drv now b db) = ValidationFailed ds" for ds
      using that de date_format_distinct
      by (auto simp: post_equipment_def Let_def name_errors_def type_errors_def
            status_errors_def split: if_splits option.splits sum.splits prod.splits)
    moreover have "\<exists>r. equipment_tbl (snd (post_equipment drv now b db)) = equipment_tbl db @ [r]
        \<and> lastCleanedDate_col r = None
        \<and> (next_rowid db \<le> 9007199254740992 \<longrightarrow> ro = Some r)"
      if c: "fst (post_equipment drv now b db) = Created ro" for ro
    proof -
      note d = post_equipment_CreatedD [OF c]
      from d have db': "snd (post_equipment drv now b db) =
          \<lparr>equipment_tbl = equipment_tbl db @ [created_row drv now b db],
           sqlite_sequence = next_rowid db\<rparr>"
        and ro: "ro = select_by_id (Some (js_number (next_rowid db)))
          (snd (post_equipment drv now b db))"
        by simp_all
      have "lastCleanedDate_col (created_row drv now b db) = None"
        using falsy by (simp add: created_row_def new_row_def stored_date_def)
      moreover have "ro = Some (created_row drv now b db)"
        if "next_rowid db \<le> 9007199254740992"
        using select_created_row [OF that, of drv now b] ro by (simp add: db')
      ultimately show ?thesis by (simp add: db')
    qed
    moreover have "status_code (fst (post_equipment drv now b db)) = 201"
      if "name_ok (name b)" "includes_val VALID_TYPES (type b)"
        "includes_val VALID_STATUSES (status b)" "next_rowid db \<le> 9223372036854775807"
    proof -
      from post_equipment_valid [OF that(1-3) de, of drv now db] that(4) show ?thesis by simp
    qed
    ultimately show ?thesis using de by blast
  qed
  have update: "(lastCleanedDate b = JStr [] \<longrightarrow>
           status_code (fst (put_equipment drv now p b db)) = 400
           \<and> snd (put_equipment drv now p b db) = db)
        \<and> ((name b = JUndefined \<or> name_ok (name b))
            \<and> (type b = JUndefined \<or> includes_val VALID_TYPES (type b))
            \<and> (status b = JUndefined \<or> includes_val VALID_STATUSES (status b)) \<longrightarrow>
             (fst (put_equipment drv now p b db) = ValidationFailed [date_format] \<longleftrightarrow>
                lastCleanedDate b \<noteq> JUndefined \<and> lastCleanedDate b \<noteq> JNull
                \<and> regex_test (lastCleanedDate b) = Some False))"
    if p: "\<not> blank p" "\<not> isNaN p" "select_by_id (rowid p) db \<noteq> None"
  proof -
    from p(3) obtain r where r: "select_by_id (rowid p) db = Some r" by auto
    note eq = put_equipment_existing [OF p(1,2) r, of drv now b]
    have "status_code (fst (put_equipment drv now p b db)) = 400 \<and> snd (put_equipment drv now p b db) = db"
      if "lastCleanedDate b = JStr []"
      unfolding eq put_fields_eq using that by (simp add: regex_test_empty)
    moreover have "fst (put_equipment drv now p b db) = ValidationFailed [date_format] \<longleftrightarrow>
                lastCleanedDate b \<noteq> JUndefined \<and> lastCleanedDate b \<noteq> JNull
                \<and> regex_test (lastCleanedDate b) = Some False"
      if "name b = JUndefined \<or> name_ok (name b)"
        "type b = JUndefined \<or> includes_val VALID_TYPES (type b)"
        "status b = JUndefined \<or> includes_val VALID_STATUSES (status b)"
      using put_fields_date_failure [OF that] put_fields_InlD [of b]
      unfolding eq by (cases "put_fields b") auto
    ultimately show ?thesis by blast
  qed
  show ?thesis using create update by simp
qed

theorem empty_date_create_versus_update_witness:
  "status_code (fst (post_equipment example_driver 5
       \<lparr>name = JStr (str ''Tank 1''), type = JStr (str ''Tank''),
        status = JStr (str ''Active''), lastCleanedDate = JStr []\<rparr> initialize)) = 201
   \<and> fst (put_equipment example_driver 9 (decimal_id 1)
       \<lparr>name = JUndefined, type = JUndefined, status = JUndefined,
        lastCleanedDate = JStr []\<rparr>
       \<lparr>equipment_tbl =
          [\<lparr>id_col = 1, name_col = str ''Tank 1'', type_col = str ''Tank'',
            status_col = str ''Active'', lastCleanedDate_col = Some (str ''2025-12-15''),
            createdAt_col = 5, updatedAt_col = 5\<rparr>], sqlite_sequence = 1\<rparr>)
       = ValidationFailed [date_format]
   \<and> fst (put_equipment example_driver 9 (decimal_id 1)
       \<lparr>name = JUndefined, type = JUndefined, status = JUndefined,
        lastCleanedDate = JNull\<rparr>
       \<lparr>equipment_tbl =
          [\<lparr>id_col = 1, name_col = str ''Tank 1'', type_col = str ''Tank'',
            status_col = str ''Active'', lastCleanedDate_col = Some (str ''2025-12-15''),
            createdAt_col = 5, updatedAt_col = 5\<rparr>], sqlite_sequence = 1\<rparr>)
       \<noteq> ValidationFailed [date_format]"
proof -
  let ?c = "\<lparr>name = JStr (str ''Tank 1''), type = JStr (str ''Tank''),
        status = JStr (str ''Active''), lastCleanedDate = JStr []\<rparr>"
  let ?e = "\<lparr>name = JUndefined, type = JUndefined, status = JUndefined,
        lastCleanedDate = JStr []\<rparr>"
  let ?n = "\<lparr>name = JUndefined, type = JUndefined, status = JUndefined,
        lastCleanedDate = JNull\<rparr>"
  let ?db = "\<lparr>equipment_tbl =
          [\<lparr>id_col = 1, name_col = str ''Tank 1'', type_col = str ''Tank'',
            status_col = str ''Active'', lastCleanedDate_col = Some (str ''2025-12-15''),
            createdAt_col = 5, updatedAt_col = 5\<rparr>], sqlite_sequence = 1\<rparr>"
  have c: "\<not> truthy (lastCleanedDate ?c)" "name_ok (name ?c)"
    "includes_val VALID_TYPES (type ?c)" "includes_val VALID_STATUSES (status ?c)"
    "next_rowid initialize \<le> 9223372036854775807"
    by (simp_all add: str_def trim_def is_space_def VALID_TYPES_def VALID_STATUSES_def
         next_rowid_def largest_rowid_def initialize_def)
  have p: "\<not> blank (decimal_id 1) \<and> \<not> isNaN (decimal_id 1)
      \<and> select_by_id (rowid (decimal_id 1)) ?db \<noteq> None"
    by (simp add: decimal_id_def select_by_id_def)
  have "status_code (fst (post_equipment example_driver 5 ?c initialize)) = 201"
    using empty_date_create_versus_update [of ?c example_driver 5 initialize "decimal_id 1"] c by blast
  moreover have "fst (put_equipment example_driver 9 (decimal_id 1) ?e ?db) = ValidationFailed [date_format]"
    using empty_date_create_versus_update [of ?e example_driver 9 ?db "decimal_id 1"] p
    by (simp add: regex_test_empty)
  moreover have "fst (put_equipment example_driver 9 (decimal_id 1) ?n ?db) \<noteq> ValidationFailed [date_format]"
    using empty_date_create_versus_update [of ?n example_driver 9 ?db "decimal_id 1"] p
    by simp
  ultimately show ?thesis by blast
qed

subsection \<open>C10: an unknown id is reported before the body is looked at\<close>

text \<open>
  C10. For every update request whose path id is numeric but matches no stored record,
  the response is 404 echoing the parsed id regardless of the request body: the existence
  check runs before any field validation and before the zero-fields check, so an unknown
  id with an invalid or empty body yields 404, never 400. The store is unchanged.
\<close>

theorem unknown_id_is_not_found:
  "\<not> blank p \<Longrightarrow> \<not> isNaN p \<Longrightarrow> select_by_id (rowid p) db = None \<Longrightarrow>
     put_equipment drv now p b db = (NotFound (parseInt p), db)
     \<and> status_code (fst (put_equipment drv now p b db)) = 404"
  by (simp add: put_equipment_def)

theorem unknown_id_is_not_found_witness:
  "put_equipment example_driver 7 (decimal_id 999999)
     \<lparr>name = JStr [], type = JNum 3, status = JUndefined,
      lastCleanedDate = JObj [(str ''toString'', JNull)]\<rparr> initialize
     = (NotFound (Some 999999), initialize)
   \<and> put_equipment example_driver 7 (decimal_id 999999)
     \<lparr>name = JUndefined, type = JUndefined, status = JUndefined,
      lastCleanedDate = JUndefined\<rparr> initialize
     = (NotFound (Some 999999), initialize)"
proof -
  have p: "\<not> blank (decimal_id 999999)" "\<not> isNaN (decimal_id 999999)"
    "select_by_id (rowid (decimal_id 999999)) initialize = None"
    "parseInt (decimal_id 999999) = Some 999999"
    by (simp_all add: decimal_id_def select_by_id_def initialize_def)
  show ?thesis
    using unknown_id_is_not_found [OF p(1-3)] by (simp add: p(4))
qed

end
